theory Spec2Isabelle
  imports Complex_Main
begin

section \<open>Python values and exceptions\<close>

text \<open>
  The service is written in Python. Its floats are modelled as real numbers: arithmetic
  on them is exact, rounding is not modelled, with one exception: where the service
  turns a float back into an integer (\<^verbatim>\<open>int(width * 0.1)\<close>), the product is rounded as
  IEEE double arithmetic rounds it, since there a rounding error can change the result
  by a whole unit. What is modelled of the float type besides is everything that changes
  control flow: the non-finite values a parse can return (\<open>inf\<close>, \<open>-inf\<close>, \<open>nan\<close>), and
  the \<open>OverflowError\<close> that the conversion of an integer to a float raises when the
  integer is too large.
\<close>

datatype pyfloat = Finite real | PosInf | NegInf | NaN

text \<open>The values a decoded JSON document can hold.\<close>

datatype pyval =
    PNone
  | PBool bool
  | PInt int
  | PFloat pyfloat
  | PStr string
  | PList "pyval list"
  | PDict "(string \<times> pyval) list"

text \<open>
  The builtins \<^verbatim>\<open>int(v)\<close>, \<^verbatim>\<open>float(v)\<close>, \<^verbatim>\<open>n * 0.1\<close> and \<^verbatim>\<open>d[k]\<close> either return or
  raise an exception of one of four classes. Every handler of the service that catches
  one of them replaces its message, so only the class is kept.
\<close>

datatype raised = Key_Error | Type_Error | Value_Error | Overflow_Error

datatype 'a builtin = Returns 'a | Raises raised

fun bind_builtin :: "'a builtin \<Rightarrow> ('a \<Rightarrow> 'b builtin) \<Rightarrow> 'b builtin" where
  "bind_builtin (Returns a) f = f a"
| "bind_builtin (Raises ex) f = Raises ex"

text \<open>
  Exceptions are values. \<open>ValidationError message field\<close> and
  \<open>InferenceError message reason\<close> are the two exceptions of \<^verbatim>\<open>exceptions.py\<close>;
  \<open>ValueError message\<close> is the \<open>ValueError\<close> that \<^verbatim>\<open>image.py\<close> raises with a message of
  its own; \<open>Propagated ex\<close> is an exception of a builtin that no handler caught, for
  instance \<open>Propagated Overflow_Error\<close>; \<open>StatisticsError\<close> is raised by
  \<^verbatim>\<open>statistics.NormalDist\<close>.
\<close>

datatype error =
    ValidationError string "string option"
  | InferenceError string string
  | ValueError string
  | Propagated raised
  | StatisticsError

text \<open>
  What the service uses of Python's standard library and cannot be read off its own
  source is a parameter of the model. The string decoders are the record \<open>pylib\<close>:
  \<^item> \<open>b64decode\<close> is \<^verbatim>\<open>base64.b64decode(data, validate=True)\<close>, \<open>None\<close> when it raises
    (\<^verbatim>\<open>binascii.Error\<close>, a \<open>ValueError\<close>); byte strings and text are both \<open>string\<close>;
  \<^item> \<open>int_of_str\<close> and \<open>float_of_str\<close> are \<^verbatim>\<open>int(s)\<close> and \<^verbatim>\<open>float(s)\<close> on a string,
    \<open>None\<close> when they raise \<open>ValueError\<close>.
  The quantile function of the standard normal distribution, as
  \<^verbatim>\<open>statistics.NormalDist.inv_cdf\<close> computes it, is the argument \<open>probit\<close> of the
  functions that need it.
\<close>

record pylib =
  b64decode :: "string \<Rightarrow> string option"
  int_of_str :: "string \<Rightarrow> int option"
  float_of_str :: "string \<Rightarrow> pyfloat option"

subsection \<open>Conversions between integers and floats\<close>

text \<open>
  Python integers are unbounded, floats are IEEE doubles with 53 significant bits.
  Converting an integer to a float (explicitly by \<^verbatim>\<open>float(n)\<close>, or implicitly in
  \<^verbatim>\<open>n * 0.1\<close>) rounds to the nearest double, ties to the even significand, and raises
  \<open>OverflowError\<close> when the rounded value would be \<open>2 ^ 1024\<close> or more, that is from
  \<open>2 ^ 1024 - 2 ^ 970\<close> on in absolute value. The double nearest to an integer is itself
  an integer.
\<close>

fun bit_length :: "nat \<Rightarrow> nat" where
  "bit_length n = (if n = 0 then 0 else Suc (bit_length (n div 2)))"

text \<open>\<open>p / 2 ^ s\<close> rounded to the nearest integer, ties to even.\<close>

definition round_half_even :: "nat \<Rightarrow> nat \<Rightarrow> nat" where
  "round_half_even p s =
     (if s = 0 then p
      else let q = p div 2 ^ s; r = p mod 2 ^ s; half = 2 ^ (s - 1)
           in if r < half then q
              else if half < r then q + 1
              else if even q then q else q + 1)"

text \<open>An integer rounded to 53 significant bits.\<close>

definition round53 :: "int \<Rightarrow> int" where
  "round53 p =
     (let a = nat \<bar>p\<bar>; b = bit_length a
      in if b \<le> 53 then p
         else sgn p * int (round_half_even a (b - 53) * 2 ^ (b - 53)))"

definition int_fits_float :: "int \<Rightarrow> bool" where
  "int_fits_float n \<longleftrightarrow> \<bar>n\<bar> < 2 ^ 1024 - 2 ^ 970"

definition py_float_of_int :: "int \<Rightarrow> int builtin" where
  "py_float_of_int n = (if int_fits_float n then Returns (round53 n) else Raises Overflow_Error)"

text \<open>\<^verbatim>\<open>int(f)\<close> on a finite float truncates towards zero.\<close>

definition py_trunc :: "real \<Rightarrow> int" where
  "py_trunc r = (if 0 \<le> r then \<lfloor>r\<rfloor> else \<lceil>r\<rceil>)"

text \<open>
  A float literal of the source is the double nearest to it, written \<open>(m, k)\<close> for
  \<open>m / 2 ^ k\<close>: \<^verbatim>\<open>0.1\<close> is \<open>3602879701896397 / 2 ^ 55\<close> and \<^verbatim>\<open>0.8\<close> is
  \<open>3602879701896397 / 2 ^ 52\<close>.
\<close>

type_synonym double_literal = "int \<times> nat"

definition float_0_1 :: double_literal where
  "float_0_1 = (3602879701896397, 55)"

definition float_0_8 :: double_literal where
  "float_0_8 = (3602879701896397, 52)"

text \<open>
  \<^verbatim>\<open>int(f * c)\<close> for an integer-valued double \<open>f\<close> and a literal \<open>c = m / 2 ^ k\<close>: the
  exact product \<open>f * m / 2 ^ k\<close> is rounded to 53 significant bits, then truncated
  towards zero. (The product of a double of absolute value at least one with \<^verbatim>\<open>0.1\<close> or
  \<^verbatim>\<open>0.8\<close> neither overflows nor is subnormal.)
\<close>

definition int_of_product :: "int \<Rightarrow> double_literal \<Rightarrow> int" where
  "int_of_product f c =
     (case c of (m, k) \<Rightarrow> let p = round53 (f * m) in sgn p * (\<bar>p\<bar> div 2 ^ k))"

text \<open>\<^verbatim>\<open>int(n * c)\<close> for an integer \<open>n\<close> and a float literal \<open>c\<close>.\<close>

definition int_scaled :: "int \<Rightarrow> double_literal \<Rightarrow> int builtin" where
  "int_scaled n c = bind_builtin (py_float_of_int n) (\<lambda>f. Returns (int_of_product f c))"

subsection \<open>Truthiness and the builtins on JSON values\<close>

fun py_bool :: "pyval \<Rightarrow> bool" where
  "py_bool PNone = False"
| "py_bool (PBool b) = b"
| "py_bool (PInt n) = (n \<noteq> 0)"
| "py_bool (PFloat f) = (f \<noteq> Finite 0)"
| "py_bool (PStr s) = (s \<noteq> [])"
| "py_bool (PList vs) = (vs \<noteq> [])"
| "py_bool (PDict kvs) = (kvs \<noteq> [])"

fun py_float :: "pylib \<Rightarrow> pyval \<Rightarrow> pyfloat builtin" where
  "py_float L PNone = Raises Type_Error"
| "py_float L (PBool b) = Returns (Finite (if b then 1 else 0))"
| "py_float L (PInt n) = bind_builtin (py_float_of_int n) (\<lambda>f. Returns (Finite (of_int f)))"
| "py_float L (PFloat f) = Returns f"
| "py_float L (PStr s) =
     (case float_of_str L s of None \<Rightarrow> Raises Value_Error | Some f \<Rightarrow> Returns f)"
| "py_float L (PList vs) = Raises Type_Error"
| "py_float L (PDict kvs) = Raises Type_Error"

fun py_int :: "pylib \<Rightarrow> pyval \<Rightarrow> int builtin" where
  "py_int L PNone = Raises Type_Error"
| "py_int L (PBool b) = Returns (if b then 1 else 0)"
| "py_int L (PInt n) = Returns n"
| "py_int L (PFloat (Finite r)) = Returns (py_trunc r)"
| "py_int L (PFloat PosInf) = Raises Overflow_Error"
| "py_int L (PFloat NegInf) = Raises Overflow_Error"
| "py_int L (PFloat NaN) = Raises Value_Error"
| "py_int L (PStr s) =
     (case int_of_str L s of None \<Rightarrow> Raises Value_Error | Some n \<Rightarrow> Returns n)"
| "py_int L (PList vs) = Raises Type_Error"
| "py_int L (PDict kvs) = Raises Type_Error"

text \<open>\<^verbatim>\<open>d[k]\<close> and \<^verbatim>\<open>d.get(k, default)\<close> on a dictionary.\<close>

definition getitem :: "(string \<times> pyval) list \<Rightarrow> string \<Rightarrow> pyval builtin" where
  "getitem d k = (case map_of d k of None \<Rightarrow> Raises Key_Error | Some v \<Rightarrow> Returns v)"

definition get_default :: "(string \<times> pyval) list \<Rightarrow> string \<Rightarrow> pyval \<Rightarrow> pyval" where
  "get_default d k dflt = (case map_of d k of None \<Rightarrow> dflt | Some v \<Rightarrow> v)"

text \<open>\<^verbatim>\<open>str(n)\<close> for an integer, as the f-string of \<^verbatim>\<open>_validate_image_size\<close> formats it.\<close>

fun str_of_nat :: "nat \<Rightarrow> string" where
  "str_of_nat n =
     (if n < 10 then [char_of (48 + n)]
      else str_of_nat (n div 10) @ [char_of (48 + n mod 10)])"

definition str_of_int :: "int \<Rightarrow> string" where
  "str_of_int i = (if i < 0 then CHR ''-'' # str_of_nat (nat (- i)) else str_of_nat (nat i))"


section \<open>config.py\<close>

text \<open>
  The configuration is read from a JSON file by \<^verbatim>\<open>load_config\<close>; the model takes the
  loaded configuration as an argument.
\<close>

record model_metadata =
  name :: string
  version :: string
  mean_absolute_error :: real
  calibration_date :: string
  fairness_warnings :: "string list"
  limitations :: "string list"

record age_service_config =
  min_image_edge :: int
  detector_name :: string
  model_metadata :: model_metadata
  default_confidence_level :: pyfloat
  return_face_bbox_default :: bool

section \<open>image.py\<close>

record simple_image =
  width :: int
  height :: int
  intensity :: real

definition size_of :: "simple_image \<Rightarrow> int \<times> int" where
  "size_of img = (width img, height img)"

definition crop_box :: "simple_image \<Rightarrow> int \<Rightarrow> int \<Rightarrow> int \<Rightarrow> int \<Rightarrow> simple_image" where
  "crop_box img x y w h =
     (let new_width = max 1 (min w (width img - x));
          new_height = max 1 (min h (height img - y))
      in \<lparr>width = new_width, height = new_height, intensity = intensity img\<rparr>)"

definition resize :: "simple_image \<Rightarrow> int \<times> int \<Rightarrow> simple_image" where
  "resize img sz = (case sz of (w, h) \<Rightarrow> \<lparr>width = w, height = h, intensity = intensity img\<rparr>)"

definition mean_intensity :: "simple_image \<Rightarrow> real" where
  "mean_intensity img = intensity img"

definition normalise_image :: "simple_image \<Rightarrow> simple_image" where
  "normalise_image img = resize img (224, 224)"



subsection \<open>Decoding the wire payload\<close>

record loaded_image =
  image_of :: simple_image
  raw_bytes :: string

text \<open>\<^verbatim>\<open>payload.split(",")\<close>: the pieces between the commas, at least one piece.\<close>

fun split_comma :: "string \<Rightarrow> string list" where
  "split_comma [] = [[]]"
| "split_comma (c # cs) =
     (if c = CHR '','' then [] # split_comma cs
      else case split_comma cs of
             [] \<Rightarrow> [[c]]
           | piece # pieces \<Rightarrow> (c # piece) # pieces)"

text \<open>
  The comparison \<^verbatim>\<open>0 <= intensity <= 255\<close> on a float: false for \<open>nan\<close> and for the
  infinities.
\<close>

fun intensity_in_range :: "pyfloat \<Rightarrow> bool" where
  "intensity_in_range (Finite r) = (0 \<le> r \<and> r \<le> 255)"
| "intensity_in_range PosInf = False"
| "intensity_in_range NegInf = False"
| "intensity_in_range NaN = False"

fun finite_value :: "pyfloat \<Rightarrow> real" where
  "finite_value (Finite r) = r"
| "finite_value PosInf = 0"
| "finite_value NegInf = 0"
| "finite_value NaN = 0"

text \<open>
  \<^verbatim>\<open>_parse_payload\<close>. The tuple unpacking and the three conversions are inside one
  \<^verbatim>\<open>try\<close>, whose handler raises the first message; the two range checks follow it.
  \<open>finite_value\<close> is only applied to a float that passed \<open>intensity_in_range\<close>.
\<close>

definition parse_fields :: "pylib \<Rightarrow> string \<Rightarrow> (int \<times> int \<times> pyfloat) option" where
  "parse_fields L payload =
     (case split_comma payload of
        [width_str, height_str, intensity_str] \<Rightarrow>
          (case int_of_str L width_str of None \<Rightarrow> None | Some w \<Rightarrow>
           case int_of_str L height_str of None \<Rightarrow> None | Some h \<Rightarrow>
           case float_of_str L intensity_str of None \<Rightarrow> None | Some i \<Rightarrow> Some (w, h, i))
      | _ \<Rightarrow> None)"

definition parse_payload :: "pylib \<Rightarrow> string \<Rightarrow> error + simple_image" where
  "parse_payload L payload =
     (case parse_fields L payload of
        None \<Rightarrow> Inl (ValueError ''image payload must be width,height,intensity'')
      | Some (w, h, i) \<Rightarrow>
          if w \<le> 0 \<or> h \<le> 0 then Inl (ValueError ''image dimensions must be positive'')
          else if \<not> intensity_in_range i then Inl (ValueError ''intensity must be between 0 and 255'')
          else Inr \<lparr>width = w, height = h, intensity = finite_value i\<rparr>)"

text \<open>\<^verbatim>\<open>raw.decode("ascii")\<close> succeeds when every byte is below 128.\<close>

definition is_ascii :: "string \<Rightarrow> bool" where
  "is_ascii raw \<longleftrightarrow> list_all (\<lambda>c. of_char c < (128::nat)) raw"

definition load_base64_image :: "pylib \<Rightarrow> string \<Rightarrow> error + loaded_image" where
  "load_base64_image L data =
     (case b64decode L data of
        None \<Rightarrow> Inl (ValueError ''Invalid base64 encoded image'')
      | Some raw \<Rightarrow>
          if \<not> is_ascii raw then Inl (ValueError ''Image payload must be ASCII'')
          else case parse_payload L raw of
                 Inl e \<Rightarrow> Inl e
               | Inr img \<Rightarrow> Inr \<lparr>image_of = img, raw_bytes = raw\<rparr>)"

section \<open>detector.py\<close>

record face_bounding_box =
  box_x :: int
  box_y :: int
  box_width :: int
  box_height :: int

definition as_tuple :: "face_bounding_box \<Rightarrow> int \<times> int \<times> int \<times> int" where
  "as_tuple b = (box_x b, box_y b, box_width b, box_height b)"

record face_detection =
  bounding_box :: face_bounding_box
  confidence :: real
  occluded :: bool

text \<open>
  A detector is its \<open>name\<close> attribute and its \<open>detect_faces\<close> method, which may raise.
\<close>

record face_detector =
  det_name :: string
  det_detect_faces :: "simple_image \<Rightarrow> face_bounding_box list \<Rightarrow> error + face_detection list"

text \<open>
  \<open>detect_faces\<close> of \<open>SimpleFaceDetector\<close>. The hints of the source are a sequence or
  \<open>None\<close>; both \<open>None\<close> and the empty sequence are falsy, and are the empty list here.
  The four components of the default box are computed in the order of the source; the
  only exception they can raise is the \<open>OverflowError\<close> of the conversion to float.
\<close>

definition from_hint :: "face_bounding_box \<Rightarrow> face_detection" where
  "from_hint hint = \<lparr>bounding_box = hint, confidence = 0.9, occluded = False\<rparr>"

definition default_box :: "simple_image \<Rightarrow> face_bounding_box builtin" where
  "default_box img =
     (case size_of img of (w, h) \<Rightarrow>
        bind_builtin (int_scaled w float_0_1) (\<lambda>x.
        bind_builtin (int_scaled h float_0_1) (\<lambda>y.
        bind_builtin (int_scaled w float_0_8) (\<lambda>bw.
        bind_builtin (int_scaled h float_0_8) (\<lambda>bh.
          Returns \<lparr>box_x = x, box_y = y, box_width = bw, box_height = bh\<rparr>)))))"

definition detect_faces :: "simple_image \<Rightarrow> face_bounding_box list \<Rightarrow> error + face_detection list" where
  "detect_faces img hints =
     (if hints \<noteq> [] then Inr (map from_hint hints)
      else case default_box img of
             Returns box \<Rightarrow> Inr [\<lparr>bounding_box = box, confidence = 0.5, occluded = False\<rparr>]
           | Raises ex \<Rightarrow> Inl (Propagated ex))"

definition SimpleFaceDetector :: face_detector where
  "SimpleFaceDetector = \<lparr>det_name = ''simple'', det_detect_faces = detect_faces\<rparr>"

definition crop_to_face :: "simple_image \<Rightarrow> face_detection \<Rightarrow> simple_image" where
  "crop_to_face img detection =
     (case as_tuple (bounding_box detection) of (x, y, w, h) \<Rightarrow> crop_box img x y w h)"


section \<open>validation.py\<close>

record validated_request =
  image_base64 :: string
  consent :: bool
  confidence_level :: real
  return_face_bbox :: bool
  detector_hints :: "face_bounding_box list"

text \<open>The chained comparison \<^verbatim>\<open>0 < level < 1\<close> on a float.\<close>

fun in_open_unit :: "pyfloat \<Rightarrow> bool" where
  "in_open_unit (Finite r) = (0 < r \<and> r < 1)"
| "in_open_unit PosInf = False"
| "in_open_unit NegInf = False"
| "in_open_unit NaN = False"

text \<open>
  \<^verbatim>\<open>_coerce_confidence_level\<close>. The handler catches \<open>TypeError\<close> and \<open>ValueError\<close>;
  an \<open>OverflowError\<close> of \<^verbatim>\<open>float(value)\<close> is not caught and leaves the function.
\<close>

definition coerce_confidence_level :: "pylib \<Rightarrow> pyval \<Rightarrow> string \<Rightarrow> error + real" where
  "coerce_confidence_level L v field =
     (case py_float L v of
        Raises ex \<Rightarrow>
          if ex \<in> {Type_Error, Value_Error}
          then Inl (ValidationError ''confidence level must be a number'' (Some field))
          else Inl (Propagated ex)
      | Returns level \<Rightarrow>
          if \<not> in_open_unit level
          then Inl (ValidationError ''confidence level must be in (0, 1)'' (Some field))
          else Inr (finite_value level))"

text \<open>
  One entry of \<^verbatim>\<open>detector_hints\<close>: the four lookups and conversions, in the order of
  the source, the first failure ending the \<^verbatim>\<open>try\<close> block.
\<close>

definition hint_coordinate :: "pylib \<Rightarrow> (string \<times> pyval) list \<Rightarrow> string \<Rightarrow> int builtin" where
  "hint_coordinate L entry k = bind_builtin (getitem entry k) (py_int L)"

definition parse_hint :: "pylib \<Rightarrow> (string \<times> pyval) list \<Rightarrow> face_bounding_box builtin" where
  "parse_hint L entry =
     bind_builtin (hint_coordinate L entry ''x'') (\<lambda>x.
     bind_builtin (hint_coordinate L entry ''y'') (\<lambda>y.
     bind_builtin (hint_coordinate L entry ''width'') (\<lambda>w.
     bind_builtin (hint_coordinate L entry ''height'') (\<lambda>h.
       Returns \<lparr>box_x = x, box_y = y, box_width = w, box_height = h\<rparr>))))"

text \<open>
  The loop of \<^verbatim>\<open>_parse_detector_hints\<close>, with the list \<open>hints\<close> built so far. The
  handler catches \<open>KeyError\<close>, \<open>TypeError\<close> and \<open>ValueError\<close>; the \<open>OverflowError\<close>
  of \<^verbatim>\<open>int(float("inf"))\<close> is not caught.
\<close>

fun parse_hint_entries ::
  "pylib \<Rightarrow> string \<Rightarrow> pyval list \<Rightarrow> face_bounding_box list \<Rightarrow> error + face_bounding_box list" where
  "parse_hint_entries L field [] hints = Inr hints"
| "parse_hint_entries L field (PDict entry # rest) hints =
     (case parse_hint L entry of
        Returns box \<Rightarrow> parse_hint_entries L field rest (hints @ [box])
      | Raises ex \<Rightarrow>
          if ex \<in> {Key_Error, Type_Error, Value_Error}
          then Inl (ValidationError ''invalid detector hint'' (Some field))
          else Inl (Propagated ex))"
| "parse_hint_entries L field (_ # rest) hints =
     Inl (ValidationError ''detector_hints entries must be objects'' (Some field))"

fun parse_detector_hints :: "pylib \<Rightarrow> pyval \<Rightarrow> string \<Rightarrow> error + face_bounding_box list" where
  "parse_detector_hints L PNone field = Inr []"
| "parse_detector_hints L (PList entries) field = parse_hint_entries L field entries []"
| "parse_detector_hints L _ field =
     Inl (ValidationError ''detector_hints must be a list'' (Some field))"

text \<open>
  \<^verbatim>\<open>validate_payload\<close>. The payload is any JSON value; \<^verbatim>\<open>payload.get(k)\<close> without a
  default returns \<open>None\<close> for a missing key.
\<close>

fun validate_payload :: "pylib \<Rightarrow> pyval \<Rightarrow> age_service_config \<Rightarrow> error + validated_request" where
  "validate_payload L (PDict payload) config =
     (case map_of payload ''consent'' of
        None \<Rightarrow> Inl (ValidationError ''consent is required'' (Some ''consent''))
      | Some consent_raw \<Rightarrow>
     if \<not> py_bool consent_raw
     then Inl (ValidationError ''consent must be granted'' (Some ''consent''))
     else
     case map_of payload ''image_base64'' of
        None \<Rightarrow> Inl (ValidationError ''image_base64 is required'' (Some ''image_base64''))
      | Some image_raw \<Rightarrow>
     case (case image_raw of PStr s \<Rightarrow> if s = [] then None else Some s | _ \<Rightarrow> None) of
        None \<Rightarrow> Inl (ValidationError ''image_base64 must be a non-empty string'' (Some ''image_base64''))
      | Some image_str \<Rightarrow>
     case coerce_confidence_level L
            (get_default payload ''confidence_level'' (PFloat (default_confidence_level config)))
            ''confidence_level'' of
        Inl e \<Rightarrow> Inl e
      | Inr level \<Rightarrow>
     let return_bbox =
           py_bool (get_default payload ''return_face_bbox'' (PBool (return_face_bbox_default config)))
     in
     case parse_detector_hints L (get_default payload ''detector_hints'' PNone) ''detector_hints'' of
        Inl e \<Rightarrow> Inl e
      | Inr hints \<Rightarrow>
          Inr \<lparr>image_base64 = image_str, consent = py_bool consent_raw, confidence_level = level,
               return_face_bbox = return_bbox, detector_hints = hints\<rparr>)"
| "validate_payload L _ config = Inl (ValidationError ''payload must be an object'' None)"

section \<open>model.py\<close>

text \<open>The field \<open>value\<close> of \<open>AgePrediction\<close> is \<open>pred_value\<close> here.\<close>

record age_prediction =
  pred_value :: real
  uncertainty :: real

type_synonym age_model = "simple_image \<Rightarrow> age_prediction"

text \<open>\<open>predict\<close> of \<open>CalibratedLinearModel(slope, intercept, residual_std)\<close>.\<close>

definition CalibratedLinearModel :: "real \<Rightarrow> real \<Rightarrow> real \<Rightarrow> age_model" where
  "CalibratedLinearModel slope intercept residual_std img =
     \<lparr>pred_value = slope * (mean_intensity img / 255) + intercept, uncertainty = residual_std\<rparr>"

text \<open>
  \<^verbatim>\<open>statistics.NormalDist\<close>: the constructor rejects a negative \<open>sigma\<close>;
  \<open>inv_cdf\<close> rejects a probability outside the open unit interval and a \<open>sigma\<close> that
  is not positive, and otherwise returns \<open>mu + probit p * sigma\<close>.
\<close>

definition NormalDist :: "real \<Rightarrow> real \<Rightarrow> error + real \<times> real" where
  "NormalDist mu sigma = (if sigma < 0 then Inl StatisticsError else Inr (mu, sigma))"

definition inv_cdf :: "(real \<Rightarrow> real) \<Rightarrow> real \<times> real \<Rightarrow> real \<Rightarrow> error + real" where
  "inv_cdf probit nd p =
     (case nd of (mu, sigma) \<Rightarrow>
        if p \<le> 0 \<or> 1 \<le> p then Inl StatisticsError
        else if sigma \<le> 0 then Inl StatisticsError
        else Inr (mu + probit p * sigma))"

definition confidence_interval ::
  "(real \<Rightarrow> real) \<Rightarrow> age_prediction \<Rightarrow> real \<Rightarrow> error + real \<times> real" where
  "confidence_interval probit prediction level0 =
     (let level = max (min level0 0.999) 0 in
      if level \<le> 0 then Inr (pred_value prediction, pred_value prediction)
      else
        case NormalDist (pred_value prediction) (uncertainty prediction) of
          Inl e \<Rightarrow> Inl e
        | Inr nd \<Rightarrow>
            let tail = (1 - level) / 2 in
            case inv_cdf probit nd tail of
              Inl e \<Rightarrow> Inl e
            | Inr lower \<Rightarrow>
                case inv_cdf probit nd (1 - tail) of
                  Inl e \<Rightarrow> Inl e
                | Inr upper \<Rightarrow> Inr (lower, upper))"


section \<open>api.py\<close>

definition resolve_detector :: "age_service_config \<Rightarrow> face_detector option \<Rightarrow> face_detector" where
  "resolve_detector config provided =
     (case provided of
        Some d \<Rightarrow> d
      | None \<Rightarrow> if detector_name config = det_name SimpleFaceDetector
                then SimpleFaceDetector else SimpleFaceDetector)"

definition resolve_model :: "age_service_config \<Rightarrow> age_model option \<Rightarrow> age_model" where
  "resolve_model config provided =
     (case provided of
        Some m \<Rightarrow> m
      | None \<Rightarrow> CalibratedLinearModel 60 5 7.5)"

definition validate_image_size :: "simple_image \<Rightarrow> age_service_config \<Rightarrow> error + unit" where
  "validate_image_size img config =
     (case size_of img of (w, h) \<Rightarrow>
        if min w h < min_image_edge config
        then Inl (ValidationError
                    (''image must be at least '' @ str_of_int (min_image_edge config) @ ''px on each edge'')
                    (Some ''image_base64''))
        else Inr ())"

text \<open>
  The response dictionary, flattened: \<open>age_value\<close> is \<^verbatim>\<open>response["age"]["value"]\<close>, the
  \<open>ci_\<close> fields are \<^verbatim>\<open>response["age"]["confidence_interval"]\<close>, the \<open>meta_\<close> fields are
  \<^verbatim>\<open>response["metadata"]\<close>, and \<open>face_bbox\<close> is \<open>None\<close> when the key is absent.
\<close>

record response =
  status :: string
  age_value :: real
  ci_level :: real
  ci_lower :: real
  ci_upper :: real
  meta_detector :: string
  meta_model_name :: string
  meta_model_version :: string
  meta_mean_absolute_error :: real
  meta_calibration_date :: string
  meta_fairness_warnings :: "string list"
  meta_limitations :: "string list"
  face_bbox :: "(int \<times> int \<times> int \<times> int) option"

text \<open>
  \<^verbatim>\<open>run_inference\<close> from the face-count checks on (the part of the function after the
  call of the detector), given the detections.
\<close>

definition after_detection ::
  "(real \<Rightarrow> real) \<Rightarrow> age_service_config \<Rightarrow> validated_request \<Rightarrow> loaded_image \<Rightarrow>
   face_detector \<Rightarrow> age_model option \<Rightarrow> face_detection list \<Rightarrow> error + response" where
  "after_detection probit config request loaded detector_impl model detections =
     (case detections of
        [] \<Rightarrow> Inl (InferenceError ''no faces detected'' ''no_faces'')
      | detection # others \<Rightarrow>
          if length detections > 1
          then Inl (InferenceError ''multiple faces detected'' ''multiple_faces'')
          else if occluded detection
          then Inl (InferenceError ''primary face appears occluded'' ''occluded'')
          else
            let cropped = crop_to_face (image_of loaded) detection;
                normalised = normalise_image cropped;
                model_impl = resolve_model config model;
                prediction = model_impl normalised
            in case confidence_interval probit prediction (confidence_level request) of
                 Inl e \<Rightarrow> Inl e
               | Inr (lower, upper) \<Rightarrow>
                   Inr \<lparr>status = ''success'',
                        age_value = pred_value prediction,
                        ci_level = confidence_level request,
                        ci_lower = lower,
                        ci_upper = upper,
                        meta_detector = det_name detector_impl,
                        meta_model_name = name (model_metadata config),
                        meta_model_version = version (model_metadata config),
                        meta_mean_absolute_error = mean_absolute_error (model_metadata config),
                        meta_calibration_date = calibration_date (model_metadata config),
                        meta_fairness_warnings = fairness_warnings (model_metadata config),
                        meta_limitations = limitations (model_metadata config),
                        face_bbox =
                          (if return_face_bbox request
                           then Some (as_tuple (bounding_box detection)) else None)\<rparr>)"

text \<open>
  \<^verbatim>\<open>run_inference\<close>. The handler around \<^verbatim>\<open>load_base64_image\<close> catches \<open>ValueError\<close> and
  raises a \<open>ValidationError\<close> with the same message.
\<close>

definition run_inference ::
  "pylib \<Rightarrow> (real \<Rightarrow> real) \<Rightarrow> age_service_config \<Rightarrow> pyval \<Rightarrow> face_detector option \<Rightarrow>
   age_model option \<Rightarrow> error + response" where
  "run_inference L probit config payload detector model =
     (case validate_payload L payload config of
        Inl e \<Rightarrow> Inl e
      | Inr request \<Rightarrow>
     case load_base64_image L (image_base64 request) of
        Inl (ValueError msg) \<Rightarrow> Inl (ValidationError msg (Some ''image_base64''))
      | Inl e \<Rightarrow> Inl e
      | Inr loaded \<Rightarrow>
     case validate_image_size (image_of loaded) config of
        Inl e \<Rightarrow> Inl e
      | Inr _ \<Rightarrow>
     let detector_impl = resolve_detector config detector in
     case det_detect_faces detector_impl (image_of loaded) (detector_hints request) of
        Inl e \<Rightarrow> Inl e
      | Inr detections \<Rightarrow>
          after_detection probit config request loaded detector_impl model detections)"

section \<open>A reference instance of the library\<close>

text \<open>
  For evaluating the service on concrete requests, an instance of the string decoders
  on the plain inputs the examples use: canonical base64 (the alphabet
  \<open>A-Z a-z 0-9 + /\<close>, a length that is a multiple of four, padding at the end), decimal
  integers with an optional sign, and decimal floats with an optional sign and an
  optional fraction. On other strings the instance rejects what Python may accept
  (white space, underscores, exponents, \<open>inf\<close>, \<open>nan\<close>), so it is used on plain inputs
  only. Every general theorem below holds for arbitrary decoders.
\<close>

definition b64_index :: "char \<Rightarrow> nat option" where
  "b64_index c =
     (let n = (of_char c :: nat) in
      if 65 \<le> n \<and> n \<le> 90 then Some (n - 65)
      else if 97 \<le> n \<and> n \<le> 122 then Some (n - 71)
      else if 48 \<le> n \<and> n \<le> 57 then Some (n + 4)
      else if n = 43 then Some 62
      else if n = 47 then Some 63
      else None)"

fun b64_indices :: "string \<Rightarrow> nat list option" where
  "b64_indices [] = Some []"
| "b64_indices (c # cs) =
     (case b64_index c of
        None \<Rightarrow> None
      | Some n \<Rightarrow> (case b64_indices cs of None \<Rightarrow> None | Some ns \<Rightarrow> Some (n # ns)))"

fun b64_bytes :: "nat list \<Rightarrow> string" where
  "b64_bytes (a # b # c # d # rest) =
     char_of (a * 4 + b div 16) # char_of ((b mod 16) * 16 + c div 4) #
     char_of ((c mod 4) * 64 + d) # b64_bytes rest"
| "b64_bytes [a, b, c] = [char_of (a * 4 + b div 16), char_of ((b mod 16) * 16 + c div 4)]"
| "b64_bytes [a, b] = [char_of (a * 4 + b div 16)]"
| "b64_bytes _ = []"

definition ref_b64decode :: "string \<Rightarrow> string option" where
  "ref_b64decode s =
     (let body = takeWhile (\<lambda>c. c \<noteq> CHR ''='') s;
          pad = dropWhile (\<lambda>c. c \<noteq> CHR ''='') s
      in if \<not> list_all (\<lambda>c. c = CHR ''='') pad then None
         else if length s mod 4 \<noteq> 0 \<or> length pad > 2 then None
         else case b64_indices body of None \<Rightarrow> None | Some ns \<Rightarrow> Some (b64_bytes ns))"

definition digit_value :: "char \<Rightarrow> nat option" where
  "digit_value c =
     (let n = (of_char c :: nat) in if 48 \<le> n \<and> n \<le> 57 then Some (n - 48) else None)"

fun digits_value :: "nat \<Rightarrow> string \<Rightarrow> nat option" where
  "digits_value acc [] = Some acc"
| "digits_value acc (c # cs) =
     (case digit_value c of None \<Rightarrow> None | Some d \<Rightarrow> digits_value (10 * acc + d) cs)"

definition unsigned_value :: "string \<Rightarrow> nat option" where
  "unsigned_value s = (if s = [] then None else digits_value 0 s)"

definition ref_int_of_str :: "string \<Rightarrow> int option" where
  "ref_int_of_str s =
     (case s of
        [] \<Rightarrow> None
      | c # cs \<Rightarrow>
          if c = CHR ''-'' then map_option (\<lambda>n. - int n) (unsigned_value cs)
          else if c = CHR ''+'' then map_option int (unsigned_value cs)
          else map_option int (unsigned_value s))"

definition unsigned_decimal :: "string \<Rightarrow> real option" where
  "unsigned_decimal s =
     (let wdigits = takeWhile (\<lambda>c. c \<noteq> CHR ''.'') s;
          rest = dropWhile (\<lambda>c. c \<noteq> CHR ''.'') s
      in case rest of
           [] \<Rightarrow> map_option real (unsigned_value wdigits)
         | dot # fdigits \<Rightarrow>
             if wdigits = [] \<and> fdigits = [] then None
             else case (digits_value 0 wdigits, digits_value 0 fdigits) of
                    (Some w, Some f) \<Rightarrow> Some (real w + real f / 10 ^ length fdigits)
                  | _ \<Rightarrow> None)"

definition ref_float_of_str :: "string \<Rightarrow> pyfloat option" where
  "ref_float_of_str s =
     (case s of
        [] \<Rightarrow> None
      | c # cs \<Rightarrow>
          if c = CHR ''-'' then map_option (\<lambda>r. Finite (- r)) (unsigned_decimal cs)
          else if c = CHR ''+'' then map_option Finite (unsigned_decimal cs)
          else map_option Finite (unsigned_decimal s))"

definition ref_lib :: pylib where
  "ref_lib =
     \<lparr>b64decode = ref_b64decode, int_of_str = ref_int_of_str, float_of_str = ref_float_of_str\<rparr>"

text \<open>
  A request that grants consent and carries the image \<open>img\<close>, with further fields
  \<open>extra\<close>.
\<close>

definition ref_payload :: "string \<Rightarrow> (string \<times> pyval) list \<Rightarrow> pyval" where
  "ref_payload img extra = PDict ([(''consent'', PBool True), (''image_base64'', PStr img)] @ extra)"

definition ref_config :: age_service_config where
  "ref_config =
     \<lparr>min_image_edge = 128, detector_name = ''simple'',
      model_metadata =
        \<lparr>name = ''CalibratedLinearNet'', version = ''unknown'', mean_absolute_error = 0,
         calibration_date = ''unknown'', fairness_warnings = [], limitations = []\<rparr>,
      default_confidence_level = Finite 0.9, return_face_bbox_default = False\<rparr>"

text \<open>The validated form of \<open>ref_payload img extra\<close> when \<open>extra\<close> holds the hints \<open>hints\<close>.\<close>

definition ref_request :: "string \<Rightarrow> face_bounding_box list \<Rightarrow> validated_request" where
  "ref_request img hints =
     \<lparr>image_base64 = img, consent = True, confidence_level = 0.9,
      return_face_bbox = False, detector_hints = hints\<rparr>"

subsection \<open>The quantile function\<close>


text \<open>
  Where the value of the quantile function does not matter, its tangent at the median
  (of slope \<open>sqrt (2 * pi)\<close>, about \<open>5 / 2\<close>) stands for it.
\<close>

definition ref_probit :: "real \<Rightarrow> real" where
  "ref_probit p = 5 / 2 * (p - 1 / 2)"

text \<open>
  The stubs of \<^verbatim>\<open>tests/test_inference.py\<close>: a detector that returns a fixed list of
  detections whatever the image and the hints, and a model that returns a fixed
  prediction.
\<close>

definition DetectorStub :: "face_detection list \<Rightarrow> face_detector" where
  "DetectorStub detections =
     \<lparr>det_name = ''stub'', det_detect_faces = (\<lambda>img hints. Inr detections)\<rparr>"

definition ModelStub :: "real \<Rightarrow> real \<Rightarrow> age_model" where
  "ModelStub v u = (\<lambda>img. \<lparr>pred_value = v, uncertainty = u\<rparr>)"

section \<open>Cropping\<close>

text \<open>
  C7. For every image and every integer crop request \<open>(x, y, w, h)\<close>, the result of
  \<open>crop_box\<close> has width exactly \<open>max 1 (min w (W - x))\<close> and height exactly
  \<open>max 1 (min h (H - y))\<close>, where \<open>W\<close> and \<open>H\<close> are the width and height of the
  source image. The equations need no assumption on \<open>W\<close> and \<open>H\<close>.
\<close>

theorem crop_box_dimensions:
  "width (crop_box img x y w h) = max 1 (min w (width img - x)) \<and>
   height (crop_box img x y w h) = max 1 (min h (height img - y))"
  by (simp add: crop_box_def Let_def)

text \<open>
  C3 as stated fails: when the offset is at or beyond the edge of the image the remaining
  extent \<open>W - x\<close> is zero or negative, and the crop is clamped up to one pixel.
\<close>

theorem crop_box_extent_counterexample:
  "\<not> width (crop_box \<lparr>width = 10, height = 10, intensity = 0\<rparr> 10 0 5 5)
       \<le> width \<lparr>width = 10, height = 10, intensity = 0\<rparr> - 10"
  by (simp add: crop_box_def)

text \<open>
  C3, amended. For every image and every integer crop request \<open>(x, y, w, h)\<close>, the cropped
  image has positive width and height; its width is at most \<open>max 1 (W - x)\<close> and its
  height at most \<open>max 1 (H - y)\<close>; so the crop stays within the extent remaining from the
  offset whenever that extent is positive (\<open>x < W\<close>, respectively \<open>y < H\<close>).
\<close>

theorem crop_box_within_extent:
  "0 < width (crop_box img x y w h) \<and> 0 < height (crop_box img x y w h) \<and>
   width (crop_box img x y w h) \<le> max 1 (width img - x) \<and>
   height (crop_box img x y w h) \<le> max 1 (height img - y) \<and>
   (x < width img \<longrightarrow> width (crop_box img x y w h) \<le> width img - x) \<and>
   (y < height img \<longrightarrow> height (crop_box img x y w h) \<le> height img - y)"
  by (auto simp add: crop_box_def Let_def)

theorem crop_box_within_extent_witness:
  "(3::int) < 10 \<and> (4::int) < 10 \<and>
   width (crop_box \<lparr>width = 10, height = 10, intensity = 0\<rparr> 3 4 20 2) = 7 \<and>
   height (crop_box \<lparr>width = 10, height = 10, intensity = 0\<rparr> 3 4 20 2) = 2 \<and>
   width (crop_box \<lparr>width = 10, height = 10, intensity = 0\<rparr> 3 4 20 2) \<le> 10 - 3 \<and>
   height (crop_box \<lparr>width = 10, height = 10, intensity = 0\<rparr> 3 4 20 2) \<le> 10 - 4"
  using crop_box_within_extent [of "\<lparr>width = 10, height = 10, intensity = 0\<rparr>" 3 4 20 2]
  by (simp add: crop_box_def)

section \<open>The reference detector\<close>

lemma round53_256: "round53 256 = 256"
  by (simp add: round53_def)

lemma round53_product: "round53 922337203685477632 = 922337203685477632"
  by (simp add: round53_def round_half_even_def)

lemma scaled_256:
  "int_of_product (round53 256) float_0_1 = 25"
  "int_of_product (round53 256) float_0_8 = 204"
  by (simp_all add: round53_256 round53_product int_of_product_def float_0_1_def float_0_8_def)

lemma int_scaled_fits:
  "int_fits_float n \<Longrightarrow> int_scaled n c = Returns (int_of_product (round53 n) c)"
  by (simp add: int_scaled_def py_float_of_int_def)

lemma int_scaled_overflow:
  "\<not> int_fits_float n \<Longrightarrow> int_scaled n c = Raises Overflow_Error"
  by (simp add: int_scaled_def py_float_of_int_def)

lemma int_scaled_cases:
  "int_scaled n c = Raises Overflow_Error \<or> (\<exists>k. int_scaled n c = Returns k)"
  by (cases "int_fits_float n") (simp_all add: int_scaled_fits int_scaled_overflow)

lemma default_box_fits:
  assumes "int_fits_float (width img)" and "int_fits_float (height img)"
  shows "default_box img =
     Returns \<lparr>box_x = int_of_product (round53 (width img)) float_0_1,
              box_y = int_of_product (round53 (height img)) float_0_1,
              box_width = int_of_product (round53 (width img)) float_0_8,
              box_height = int_of_product (round53 (height img)) float_0_8\<rparr>"
  using assms by (simp add: default_box_def size_of_def int_scaled_fits)

lemma default_box_overflow:
  assumes "\<not> (int_fits_float (width img) \<and> int_fits_float (height img))"
  shows "default_box img = Raises Overflow_Error"
proof (cases "int_fits_float (width img)")
  case True
  with assms have "\<not> int_fits_float (height img)" by simp
  with True show ?thesis
    by (simp add: default_box_def size_of_def int_scaled_fits int_scaled_overflow)
next
  case False
  then show ?thesis
    by (simp add: default_box_def size_of_def int_scaled_overflow)
qed

lemma detect_faces_hints:
  "hints \<noteq> [] \<Longrightarrow> detect_faces img hints = Inr (map from_hint hints)"
  by (simp add: detect_faces_def)

lemma detect_faces_returns:
  assumes "detect_faces img hints = Inr ds"
  shows "ds \<noteq> [] \<and> (\<forall>d \<in> set ds. \<not> occluded d) \<and> (hints \<noteq> [] \<longrightarrow> ds = map from_hint hints)"
proof (cases "hints = []")
  case True
  with assms show ?thesis
    by (auto simp add: detect_faces_def split: builtin.splits)
next
  case False
  with assms show ?thesis
    by (auto simp add: detect_faces_def from_hint_def)
qed

text \<open>
  C6 as stated fails: with no hints, an image whose width (or height) does not fit a float
  makes \<^verbatim>\<open>int(width * 0.1)\<close> raise \<open>OverflowError\<close>, so no detection is returned.
\<close>

theorem detect_faces_overflow_counterexample:
  "detect_faces \<lparr>width = 2 ^ 1024, height = 256, intensity = 180\<rparr> [] =
     Inl (Propagated Overflow_Error)"
  by (simp add: detect_faces_def default_box_def size_of_def int_scaled_def
      py_float_of_int_def int_fits_float_def)

text \<open>
  C6, amended. \<open>detect_faces\<close> of \<open>SimpleFaceDetector\<close>, for every image: if a non-empty
  hints list is supplied it returns exactly one detection per hint, in order, each with
  bounding box equal to that hint, confidence 0.9 and occlusion unset; otherwise, if the
  width and the height of the image fit a float (absolute value below
  \<open>2 ^ 1024 - 2 ^ 970\<close>), it returns exactly one detection with confidence 0.5, occlusion
  unset, whose box is \<open>(int(0.1*W), int(0.1*H), int(0.8*W), int(0.8*H))\<close>, the products
  truncated towards zero.
\<close>

theorem detect_faces_spec:
  "(hints \<noteq> [] \<longrightarrow>
      detect_faces img hints =
        Inr (map (\<lambda>hint. \<lparr>bounding_box = hint, confidence = 0.9, occluded = False\<rparr>) hints)) \<and>
   (hints = [] \<and> int_fits_float (width img) \<and> int_fits_float (height img) \<longrightarrow>
      detect_faces img hints =
        Inr [\<lparr>bounding_box =
               \<lparr>box_x = int_of_product (round53 (width img)) float_0_1,
                box_y = int_of_product (round53 (height img)) float_0_1,
                box_width = int_of_product (round53 (width img)) float_0_8,
                box_height = int_of_product (round53 (height img)) float_0_8\<rparr>,
              confidence = 0.5, occluded = False\<rparr>])"
proof (intro conjI impI)
  assume "hints \<noteq> []"
  then have "detect_faces img hints = Inr (map from_hint hints)"
    by (rule detect_faces_hints)
  moreover have "from_hint = (\<lambda>hint. \<lparr>bounding_box = hint, confidence = 0.9, occluded = False\<rparr>)"
    by (rule ext) (simp add: from_hint_def)
  ultimately show "detect_faces img hints =
      Inr (map (\<lambda>hint. \<lparr>bounding_box = hint, confidence = 0.9, occluded = False\<rparr>) hints)"
    by simp
next
  assume h: "hints = [] \<and> int_fits_float (width img) \<and> int_fits_float (height img)"
  then show "detect_faces img hints =
        Inr [\<lparr>bounding_box =
               \<lparr>box_x = int_of_product (round53 (width img)) float_0_1,
                box_y = int_of_product (round53 (height img)) float_0_1,
                box_width = int_of_product (round53 (width img)) float_0_8,
                box_height = int_of_product (round53 (height img)) float_0_8\<rparr>,
              confidence = 0.5, occluded = False\<rparr>]"
    by (simp add: detect_faces_def default_box_fits)
qed

theorem detect_faces_spec_witness:
  "detect_faces \<lparr>width = 256, height = 256, intensity = 180\<rparr>
      [\<lparr>box_x = 10, box_y = 10, box_width = 100, box_height = 120\<rparr>,
       \<lparr>box_x = 300, box_y = - 5, box_width = 8, box_height = 0\<rparr>] =
     Inr [\<lparr>bounding_box = \<lparr>box_x = 10, box_y = 10, box_width = 100, box_height = 120\<rparr>,
            confidence = 0.9, occluded = False\<rparr>,
          \<lparr>bounding_box = \<lparr>box_x = 300, box_y = - 5, box_width = 8, box_height = 0\<rparr>,
            confidence = 0.9, occluded = False\<rparr>] \<and>
   int_fits_float 256 \<and>
   detect_faces \<lparr>width = 256, height = 256, intensity = 180\<rparr> [] =
     Inr [\<lparr>bounding_box = \<lparr>box_x = 25, box_y = 25, box_width = 204, box_height = 204\<rparr>,
            confidence = 0.5, occluded = False\<rparr>]"
proof -
  have fits: "int_fits_float 256"
    by (simp add: int_fits_float_def)
  have a: "detect_faces \<lparr>width = 256, height = 256, intensity = 180\<rparr>
      [\<lparr>box_x = 10, box_y = 10, box_width = 100, box_height = 120\<rparr>,
       \<lparr>box_x = 300, box_y = - 5, box_width = 8, box_height = 0\<rparr>] =
     Inr [\<lparr>bounding_box = \<lparr>box_x = 10, box_y = 10, box_width = 100, box_height = 120\<rparr>,
            confidence = 0.9, occluded = False\<rparr>,
          \<lparr>bounding_box = \<lparr>box_x = 300, box_y = - 5, box_width = 8, box_height = 0\<rparr>,
            confidence = 0.9, occluded = False\<rparr>]"
    using detect_faces_spec [of "[\<lparr>box_x = 10, box_y = 10, box_width = 100, box_height = 120\<rparr>,
       \<lparr>box_x = 300, box_y = - 5, box_width = 8, box_height = 0\<rparr>]"
       "\<lparr>width = 256, height = 256, intensity = 180\<rparr>"]
    by simp
  have b: "detect_faces \<lparr>width = 256, height = 256, intensity = 180\<rparr> [] =
     Inr [\<lparr>bounding_box = \<lparr>box_x = 25, box_y = 25, box_width = 204, box_height = 204\<rparr>,
            confidence = 0.5, occluded = False\<rparr>]"
    using detect_faces_spec [of "[]" "\<lparr>width = 256, height = 256, intensity = 180\<rparr>"] fits
    by (simp add: scaled_256)
  from a b fits show ?thesis by simp
qed

section \<open>Request validation\<close>

lemma py_float_Raises:
  "py_float L v = Raises ex \<Longrightarrow> ex \<in> {Type_Error, Value_Error, Overflow_Error}"
  by (cases v) (auto simp add: py_float_of_int_def split: if_splits option.splits)

lemma coerce_confidence_level_Inr:
  assumes "coerce_confidence_level L v field = Inr r"
  shows "0 < r \<and> r < 1 \<and> py_float L v = Returns (Finite r)"
proof (cases "py_float L v")
  case (Returns level)
  with assms show ?thesis
    by (cases level) (simp_all add: coerce_confidence_level_def split: if_splits)
next
  case (Raises ex)
  with assms show ?thesis
    by (simp add: coerce_confidence_level_def split: if_splits)
qed

lemma coerce_confidence_level_Inl:
  assumes "coerce_confidence_level L v field = Inl e"
  shows "(\<exists>msg. e = ValidationError msg (Some field)) \<or> e = Propagated Overflow_Error"
proof (cases "py_float L v")
  case (Returns level)
  with assms show ?thesis
    by (auto simp add: coerce_confidence_level_def split: if_splits)
next
  case (Raises ex)
  with assms py_float_Raises [OF Raises] show ?thesis
    by (auto simp add: coerce_confidence_level_def split: if_splits)
qed

lemma parse_hint_entries_Inl:
  "parse_hint_entries L field entries hints = Inl e \<Longrightarrow>
     (\<exists>msg. e = ValidationError msg (Some field)) \<or> e = Propagated Overflow_Error"
proof (induction L field entries hints rule: parse_hint_entries.induct)
  case (2 L field entry rest hints)
  show ?case
  proof (cases "parse_hint L entry")
    case (Returns box)
    with 2 show ?thesis by simp
  next
    case (Raises ex)
    with "2.prems" show ?thesis by (cases ex) auto
  qed
qed auto

lemma parse_detector_hints_Inl:
  "parse_detector_hints L v field = Inl e \<Longrightarrow>
     (\<exists>msg. e = ValidationError msg (Some field)) \<or> e = Propagated Overflow_Error"
  by (cases v) (auto dest: parse_hint_entries_Inl)

text \<open>What a successful validation says about the payload.\<close>

lemma validate_payload_Inr:
  assumes ok: "validate_payload L payload config = Inr request"
  obtains d consent_raw where
    "payload = PDict d"
    "map_of d ''consent'' = Some consent_raw" "py_bool consent_raw"
    "map_of d ''image_base64'' = Some (PStr (image_base64 request))" "image_base64 request \<noteq> []"
    "coerce_confidence_level L
       (get_default d ''confidence_level'' (PFloat (default_confidence_level config)))
       ''confidence_level'' = Inr (confidence_level request)"
    "return_face_bbox request =
       py_bool (get_default d ''return_face_bbox'' (PBool (return_face_bbox_default config)))"
    "parse_detector_hints L (get_default d ''detector_hints'' PNone) ''detector_hints'' =
       Inr (detector_hints request)"
proof -
  obtain d where d: "payload = PDict d"
    using ok by (cases payload) simp_all
  note v = ok [unfolded d validate_payload.simps]
  obtain c where c: "map_of d ''consent'' = Some c"
    using v by (cases "map_of d ''consent''") simp_all
  have pc: "py_bool c"
    using v c by (cases "py_bool c") simp_all
  obtain iv where iv: "map_of d ''image_base64'' = Some iv"
    using v c pc by (cases "map_of d ''image_base64''") simp_all
  obtain s where s: "iv = PStr s" "s \<noteq> []"
    using v c pc iv by (cases iv) (simp_all split: if_splits)
  obtain level where level:
    "coerce_confidence_level L
       (get_default d ''confidence_level'' (PFloat (default_confidence_level config)))
       ''confidence_level'' = Inr level"
    using v c pc iv s
    by (cases "coerce_confidence_level L
       (get_default d ''confidence_level'' (PFloat (default_confidence_level config)))
       ''confidence_level''") simp_all
  obtain hints where hints:
    "parse_detector_hints L (get_default d ''detector_hints'' PNone) ''detector_hints'' = Inr hints"
    using v c pc iv s level
    by (cases "parse_detector_hints L (get_default d ''detector_hints'' PNone) ''detector_hints''")
      (simp_all add: Let_def)
  have req: "request =
      \<lparr>image_base64 = s, consent = py_bool c, confidence_level = level,
       return_face_bbox =
         py_bool (get_default d ''return_face_bbox'' (PBool (return_face_bbox_default config))),
       detector_hints = hints\<rparr>"
    using v c pc iv s level hints by (simp add: Let_def)
  show thesis
    using that [of d c] d c pc iv s level hints req by simp
qed

lemma validate_payload_level:
  assumes "validate_payload L payload config = Inr request"
  shows "0 < confidence_level request \<and> confidence_level request < 1"
  using assms by (elim validate_payload_Inr) (auto dest: coerce_confidence_level_Inr)

text \<open>The exceptions that leave \<open>validate_payload\<close>.\<close>

lemma validate_payload_Inl:
  assumes bad: "validate_payload L payload config = Inl e"
  shows "(\<exists>msg fld. e = ValidationError msg fld \<and>
            fld \<in> {None, Some ''consent'', Some ''image_base64'', Some ''confidence_level'',
                    Some ''detector_hints''}) \<or>
         e = Propagated Overflow_Error"
proof (cases payload)
  case (PDict d)
  note v = bad [unfolded PDict validate_payload.simps]
  show ?thesis
  proof (cases "map_of d ''consent''")
    case None
    with v show ?thesis by auto
  next
    case (Some c)
    note c = this
    show ?thesis
    proof (cases "py_bool c")
      case False
      with v c show ?thesis by auto
    next
      case True
      note pc = this
      show ?thesis
      proof (cases "map_of d ''image_base64''")
        case None
        with v c pc show ?thesis by auto
      next
        case (Some iv)
        note iv = this
        show ?thesis
        proof (cases "case iv of PStr s \<Rightarrow> if s = [] then None else Some s | _ \<Rightarrow> None")
          case None
          with v c pc iv show ?thesis by auto
        next
          case (Some s)
          note s = this
          show ?thesis
          proof (cases "coerce_confidence_level L
             (get_default d ''confidence_level'' (PFloat (default_confidence_level config)))
             ''confidence_level''")
            case (Inl e1)
            with v c pc iv s have "e = e1" by simp
            with coerce_confidence_level_Inl [OF Inl]
            show ?thesis by auto
          next
            case (Inr level)
            note level = this
            show ?thesis
            proof (cases "parse_detector_hints L (get_default d ''detector_hints'' PNone)
                ''detector_hints''")
              case (Inl e2)
              with v c pc iv s level have "e = e2" by (simp add: Let_def)
              with parse_detector_hints_Inl [OF Inl]
              show ?thesis by auto
            next
              case (Inr hints)
              with v c pc iv s level show ?thesis by (simp add: Let_def)
            qed
          qed
        qed
      qed
    qed
  qed
qed (use bad in auto)

subsection \<open>The confidence level\<close>

text \<open>
  What \<open>validate_payload\<close> does with \<open>confidence_level\<close> once the consent and image
  checks have passed: the value is the field or, if absent, the configured default; a
  value that \<^verbatim>\<open>float\<close> rejects with \<open>TypeError\<close> or \<open>ValueError\<close>, or converts to a float
  outside the open unit interval, raises a \<open>ValidationError\<close> on the field.
\<close>

lemma confidence_level_checked:
  assumes "map_of d ''consent'' = Some c" and "py_bool c"
    and "map_of d ''image_base64'' = Some (PStr s)" and "s \<noteq> []"
    and "v = get_default d ''confidence_level'' (PFloat (default_confidence_level config))"
  shows "(py_float L v = Raises Type_Error \<or> py_float L v = Raises Value_Error \<longrightarrow>
            validate_payload L (PDict d) config =
              Inl (ValidationError ''confidence level must be a number'' (Some ''confidence_level''))) \<and>
         (\<forall>level. py_float L v = Returns level \<and> \<not> in_open_unit level \<longrightarrow>
            validate_payload L (PDict d) config =
              Inl (ValidationError ''confidence level must be in (0, 1)'' (Some ''confidence_level''))) \<and>
         (\<forall>request. validate_payload L (PDict d) config = Inr request \<longrightarrow>
            py_float L v = Returns (Finite (confidence_level request)) \<and>
            0 < confidence_level request \<and> confidence_level request < 1)"
proof (intro conjI allI impI)
  assume "py_float L v = Raises Type_Error \<or> py_float L v = Raises Value_Error"
  then show "validate_payload L (PDict d) config =
      Inl (ValidationError ''confidence level must be a number'' (Some ''confidence_level''))"
    using assms by (auto simp add: coerce_confidence_level_def)
next
  fix level
  assume "py_float L v = Returns level \<and> \<not> in_open_unit level"
  then show "validate_payload L (PDict d) config =
      Inl (ValidationError ''confidence level must be in (0, 1)'' (Some ''confidence_level''))"
    using assms by (simp add: coerce_confidence_level_def)
next
  fix request
  assume ok: "validate_payload L (PDict d) config = Inr request"
  from ok assms(5) have "coerce_confidence_level L v ''confidence_level'' =
      Inr (confidence_level request)"
    by (elim validate_payload_Inr) simp
  from coerce_confidence_level_Inr [OF this]
  show "py_float L v = Returns (Finite (confidence_level request))"
    and "0 < confidence_level request" and "confidence_level request < 1"
    by simp_all
qed

text \<open>
  C8. Request validation of \<open>confidence_level\<close> is meant to raise a \<open>ValidationError\<close>
  carrying field \<open>confidence_level\<close> for any value outside the open interval \<open>(0, 1)\<close>.
  The code does not for an integer too large for a float: for the payload
  \<^verbatim>\<open>{"consent": true, "image_base64": "x", "confidence_level": 2**1024}\<close> the call
  \<^verbatim>\<open>float(value)\<close> raises \<open>OverflowError\<close>, which the handler of
  \<^verbatim>\<open>_coerce_confidence_level\<close> (for \<open>TypeError\<close> and \<open>ValueError\<close>) does not catch, so
  \<open>validate_payload\<close> ends with an \<open>OverflowError\<close> and not with a \<open>ValidationError\<close>.
\<close>

theorem confidence_level_overflow_escapes:
  "validate_payload L
     (PDict [(''consent'', PBool True), (''image_base64'', PStr ''x''),
             (''confidence_level'', PInt (2 ^ 1024))]) config =
   Inl (Propagated Overflow_Error)"
  by (simp add: get_default_def coerce_confidence_level_def py_float_of_int_def int_fits_float_def)

subsection \<open>The flag for echoing the bounding box\<close>

lemma validate_payload_override_return_face_bbox:
  "validate_payload L (PDict ((''return_face_bbox'', v) # d)) config =
     (case validate_payload L (PDict d) config of
        Inl e \<Rightarrow> Inl e
      | Inr request \<Rightarrow> Inr (request\<lparr>return_face_bbox := py_bool v\<rparr>))"
proof -
  have g: "get_default ((''return_face_bbox'', v) # d) ''confidence_level'' x =
           get_default d ''confidence_level'' x"
      "get_default ((''return_face_bbox'', v) # d) ''detector_hints'' y =
           get_default d ''detector_hints'' y"
      "get_default ((''return_face_bbox'', v) # d) ''return_face_bbox'' z = v" for x y z
    by (simp_all add: get_default_def)
  show ?thesis
    by (simp add: g Let_def split: option.split sum.split)
qed

text \<open>
  C10. \<open>validate_payload\<close> never raises a \<open>ValidationError\<close> for the field
  \<open>return_face_bbox\<close>. A value of any type is accepted there and coerced by truthiness:
  putting any value \<open>v\<close> under the key changes nothing in the outcome of the validation
  except the flag of the validated request, which is \<open>bool(v)\<close>; a validated request
  carries the truthiness of the field, or of the configured default when the field is
  absent. The non-empty string \<open>"false"\<close> is truthy.
\<close>

theorem return_face_bbox_never_rejected:
  "validate_payload L payload config \<noteq> Inl (ValidationError msg (Some ''return_face_bbox'')) \<and>
   validate_payload L (PDict ((''return_face_bbox'', v) # d)) config =
     (case validate_payload L (PDict d) config of
        Inl e \<Rightarrow> Inl e
      | Inr request \<Rightarrow> Inr (request\<lparr>return_face_bbox := py_bool v\<rparr>)) \<and>
   (validate_payload L (PDict d) config = Inr request \<longrightarrow>
      return_face_bbox request =
        py_bool (get_default d ''return_face_bbox'' (PBool (return_face_bbox_default config)))) \<and>
   py_bool (PStr ''false'')"
proof (intro conjI impI)
  show "validate_payload L payload config \<noteq> Inl (ValidationError msg (Some ''return_face_bbox''))"
  proof
    assume "validate_payload L payload config = Inl (ValidationError msg (Some ''return_face_bbox''))"
    from validate_payload_Inl [OF this] show False by simp
  qed
next
  show "validate_payload L (PDict ((''return_face_bbox'', v) # d)) config =
     (case validate_payload L (PDict d) config of
        Inl e \<Rightarrow> Inl e
      | Inr request \<Rightarrow> Inr (request\<lparr>return_face_bbox := py_bool v\<rparr>))"
    by (rule validate_payload_override_return_face_bbox)
next
  assume "validate_payload L (PDict d) config = Inr request"
  then show "return_face_bbox request =
      py_bool (get_default d ''return_face_bbox'' (PBool (return_face_bbox_default config)))"
    by (elim validate_payload_Inr) simp
next
  show "py_bool (PStr ''false'')" by simp
qed

theorem return_face_bbox_never_rejected_witness:
  "validate_payload ref_lib
     (PDict [(''consent'', PBool True), (''image_base64'', PStr ''MjU2LDI1NiwxODAuMA==''),
             (''return_face_bbox'', PStr ''false'')]) ref_config =
   Inr \<lparr>image_base64 = ''MjU2LDI1NiwxODAuMA=='', consent = True, confidence_level = 0.9,
        return_face_bbox = True, detector_hints = []\<rparr> \<and>
   return_face_bbox
     \<lparr>image_base64 = ''MjU2LDI1NiwxODAuMA=='', consent = True, confidence_level = 0.9,
      return_face_bbox = True, detector_hints = []\<rparr> =
   py_bool (get_default
     [(''consent'', PBool True), (''image_base64'', PStr ''MjU2LDI1NiwxODAuMA==''),
      (''return_face_bbox'', PStr ''false'')] ''return_face_bbox''
     (PBool (return_face_bbox_default ref_config)))"
proof -
  have ok: "validate_payload ref_lib
     (PDict [(''consent'', PBool True), (''image_base64'', PStr ''MjU2LDI1NiwxODAuMA==''),
             (''return_face_bbox'', PStr ''false'')]) ref_config =
   Inr \<lparr>image_base64 = ''MjU2LDI1NiwxODAuMA=='', consent = True, confidence_level = 0.9,
        return_face_bbox = True, detector_hints = []\<rparr>"
    by (simp add: get_default_def coerce_confidence_level_def ref_config_def)
  from return_face_bbox_never_rejected [of ref_lib _ ref_config _ _
      "[(''consent'', PBool True), (''image_base64'', PStr ''MjU2LDI1NiwxODAuMA==''),
        (''return_face_bbox'', PStr ''false'')]"
      "\<lparr>image_base64 = ''MjU2LDI1NiwxODAuMA=='', consent = True, confidence_level = 0.9,
        return_face_bbox = True, detector_hints = []\<rparr>"] ok
  show ?thesis by blast
qed

section \<open>Decoding failures\<close>

lemma parse_fields_None_iff:
  "parse_fields L raw = None \<longleftrightarrow>
     length (split_comma raw) \<noteq> 3 \<or>
     (\<exists>ws hs is. split_comma raw = [ws, hs, is] \<and>
        (int_of_str L ws = None \<or> int_of_str L hs = None \<or> float_of_str L is = None))"
  by (auto simp add: parse_fields_def split: list.splits option.splits)

lemma parse_fields_Some_iff:
  "parse_fields L raw = Some (w, h, i) \<longleftrightarrow>
     (\<exists>ws hs is. split_comma raw = [ws, hs, is] \<and>
        int_of_str L ws = Some w \<and> int_of_str L hs = Some h \<and> float_of_str L is = Some i)"
  by (auto simp add: parse_fields_def split: list.splits option.splits)

lemma parse_payload_Inl:
  assumes "parse_payload L raw = Inl e"
  shows "e \<in> {ValueError ''image payload must be width,height,intensity'',
               ValueError ''image dimensions must be positive'',
               ValueError ''intensity must be between 0 and 255''}"
  using assms by (auto simp add: parse_payload_def split: option.splits if_splits)

lemma load_base64_image_Inl:
  assumes "load_base64_image L data = Inl e"
  shows "e \<in> {ValueError ''Invalid base64 encoded image'',
               ValueError ''Image payload must be ASCII'',
               ValueError ''image payload must be width,height,intensity'',
               ValueError ''image dimensions must be positive'',
               ValueError ''intensity must be between 0 and 255''}"
proof (cases "b64decode L data")
  case None
  with assms show ?thesis by (simp add: load_base64_image_def)
next
  case (Some raw)
  show ?thesis
  proof (cases "is_ascii raw")
    case False
    with assms Some show ?thesis by (simp add: load_base64_image_def)
  next
    case True
    show ?thesis
    proof (cases "parse_payload L raw")
      case (Inl e1)
      with assms Some True have "e = e1" by (simp add: load_base64_image_def)
      with parse_payload_Inl [OF Inl] show ?thesis by auto
    next
      case (Inr img)
      with assms Some True show ?thesis by (simp add: load_base64_image_def)
    qed
  qed
qed

lemma parse_payload_Inr:
  assumes "parse_payload L raw = Inr img"
  shows "0 < width img \<and> 0 < height img \<and> 0 \<le> intensity img \<and> intensity img \<le> 255"
proof -
  from assms obtain w h i where
    "img = \<lparr>width = w, height = h, intensity = finite_value i\<rparr>"
    "0 < w" "0 < h" "intensity_in_range i"
    by (cases "parse_fields L raw") (auto simp add: parse_payload_def split: if_splits)
  then show ?thesis by (cases i) simp_all
qed

lemma load_base64_image_Inr:
  assumes "load_base64_image L data = Inr loaded"
  shows "0 < width (image_of loaded) \<and> 0 < height (image_of loaded) \<and>
         0 \<le> intensity (image_of loaded) \<and> intensity (image_of loaded) \<le> 255"
proof -
  from assms obtain raw img where "parse_payload L raw = Inr img" "image_of loaded = img"
    by (auto simp add: load_base64_image_def split: option.splits if_splits sum.splits)
  with parse_payload_Inr show ?thesis by blast
qed

text \<open>The handler of \<open>run_inference\<close> around the decoder.\<close>

lemma run_inference_decode_error:
  assumes "validate_payload L payload config = Inr request"
    and "load_base64_image L (image_base64 request) = Inl (ValueError msg)"
  shows "run_inference L probit config payload detector model =
           Inl (ValidationError msg (Some ''image_base64''))"
  using assms by (simp add: run_inference_def)

lemma load_base64_image_cases:
  "(b64decode L data = None \<longrightarrow>
      load_base64_image L data = Inl (ValueError ''Invalid base64 encoded image'')) \<and>
   (b64decode L data = Some raw \<and> \<not> is_ascii raw \<longrightarrow>
      load_base64_image L data = Inl (ValueError ''Image payload must be ASCII'')) \<and>
   (b64decode L data = Some raw \<and> is_ascii raw \<and> parse_fields L raw = None \<longrightarrow>
      load_base64_image L data = Inl (ValueError ''image payload must be width,height,intensity'')) \<and>
   (b64decode L data = Some raw \<and> is_ascii raw \<and> parse_fields L raw = Some (w, h, i) \<and>
    (w \<le> 0 \<or> h \<le> 0) \<longrightarrow>
      load_base64_image L data = Inl (ValueError ''image dimensions must be positive'')) \<and>
   (b64decode L data = Some raw \<and> is_ascii raw \<and> parse_fields L raw = Some (w, h, i) \<and>
    0 < w \<and> 0 < h \<and> \<not> intensity_in_range i \<longrightarrow>
      load_base64_image L data = Inl (ValueError ''intensity must be between 0 and 255''))"
  by (auto simp add: load_base64_image_def parse_payload_def)

text \<open>
  C4 as stated fails: the decoder does not use one message for all failures. A payload
  that decodes to \<open>0,5,1.0\<close> (a non-positive width) and one that decodes to \<open>a\<close> (a
  wrong field count) are rejected with different messages.
\<close>

theorem decode_messages_differ_counterexample:
  "load_base64_image ref_lib ''MCw1LDEuMA=='' =
     Inl (ValueError ''image dimensions must be positive'') \<and>
   load_base64_image ref_lib ''YQ=='' =
     Inl (ValueError ''image payload must be width,height,intensity'')"
  by code_simp

text \<open>
  C4, amended. Every failure to decode an image payload raises a \<open>ValueError\<close>, which
  \<open>run_inference\<close> surfaces as a \<open>ValidationError\<close> on field \<open>image_base64\<close> carrying the
  decoder's message. The message tells the kind of failure apart, in five classes: a
  base64 decoding failure; non-ASCII bytes; a wrong field count, a non-integer width or
  height, or a non-float intensity (these three share one message); a non-positive width
  or height; an intensity outside \<open>[0, 255]\<close>.
\<close>

theorem decode_failure_surfaced:
  assumes "validate_payload L payload config = Inr request"
    and "data = image_base64 request"
    and "run = run_inference L probit config payload detector model"
  shows
   "(b64decode L data = None \<longrightarrow>
       run = Inl (ValidationError ''Invalid base64 encoded image'' (Some ''image_base64''))) \<and>
    (\<forall>raw. b64decode L data = Some raw \<and> \<not> is_ascii raw \<longrightarrow>
       run = Inl (ValidationError ''Image payload must be ASCII'' (Some ''image_base64''))) \<and>
    (\<forall>raw. b64decode L data = Some raw \<and> is_ascii raw \<and>
       (length (split_comma raw) \<noteq> 3 \<or>
        (\<exists>ws hs is. split_comma raw = [ws, hs, is] \<and>
           (int_of_str L ws = None \<or> int_of_str L hs = None \<or> float_of_str L is = None))) \<longrightarrow>
       run = Inl (ValidationError ''image payload must be width,height,intensity''
                   (Some ''image_base64''))) \<and>
    (\<forall>raw ws hs is w h i. b64decode L data = Some raw \<and> is_ascii raw \<and>
       split_comma raw = [ws, hs, is] \<and> int_of_str L ws = Some w \<and>
       int_of_str L hs = Some h \<and> float_of_str L is = Some i \<and> (w \<le> 0 \<or> h \<le> 0) \<longrightarrow>
       run = Inl (ValidationError ''image dimensions must be positive'' (Some ''image_base64''))) \<and>
    (\<forall>raw ws hs is w h i. b64decode L data = Some raw \<and> is_ascii raw \<and>
       split_comma raw = [ws, hs, is] \<and> int_of_str L ws = Some w \<and>
       int_of_str L hs = Some h \<and> float_of_str L is = Some i \<and> 0 < w \<and> 0 < h \<and>
       \<not> intensity_in_range i \<longrightarrow>
       run = Inl (ValidationError ''intensity must be between 0 and 255'' (Some ''image_base64''))) \<and>
    (\<forall>e. load_base64_image L data = Inl e \<longrightarrow>
       (\<exists>msg. e = ValueError msg \<and> run = Inl (ValidationError msg (Some ''image_base64''))))"
proof -
  have surf: "run = Inl (ValidationError msg (Some ''image_base64''))"
    if "load_base64_image L data = Inl (ValueError msg)" for msg
    using that assms run_inference_decode_error by simp
  have c1: "b64decode L data = None \<longrightarrow>
       run = Inl (ValidationError ''Invalid base64 encoded image'' (Some ''image_base64''))"
    using load_base64_image_cases [of L data] surf by blast
  have c2: "\<forall>raw. b64decode L data = Some raw \<and> \<not> is_ascii raw \<longrightarrow>
       run = Inl (ValidationError ''Image payload must be ASCII'' (Some ''image_base64''))"
    using load_base64_image_cases [of L data] surf by blast
  have c3: "\<forall>raw. b64decode L data = Some raw \<and> is_ascii raw \<and>
       (length (split_comma raw) \<noteq> 3 \<or>
        (\<exists>ws hs is. split_comma raw = [ws, hs, is] \<and>
           (int_of_str L ws = None \<or> int_of_str L hs = None \<or> float_of_str L is = None))) \<longrightarrow>
       run = Inl (ValidationError ''image payload must be width,height,intensity''
                   (Some ''image_base64''))"
  proof (intro allI impI)
    fix raw
    assume a: "b64decode L data = Some raw \<and> is_ascii raw \<and>
       (length (split_comma raw) \<noteq> 3 \<or>
        (\<exists>ws hs is. split_comma raw = [ws, hs, is] \<and>
           (int_of_str L ws = None \<or> int_of_str L hs = None \<or> float_of_str L is = None)))"
    then have "parse_fields L raw = None"
      by (simp only: parse_fields_None_iff)
    with a load_base64_image_cases [of L data raw] surf
    show "run = Inl (ValidationError ''image payload must be width,height,intensity''
                   (Some ''image_base64''))"
      by blast
  qed
  have c4: "\<forall>raw ws hs is w h i. b64decode L data = Some raw \<and> is_ascii raw \<and>
       split_comma raw = [ws, hs, is] \<and> int_of_str L ws = Some w \<and>
       int_of_str L hs = Some h \<and> float_of_str L is = Some i \<and> (w \<le> 0 \<or> h \<le> 0) \<longrightarrow>
       run = Inl (ValidationError ''image dimensions must be positive'' (Some ''image_base64''))"
  proof (intro allI impI)
    fix raw ws hs "is" w h i
    assume a: "b64decode L data = Some raw \<and> is_ascii raw \<and>
       split_comma raw = [ws, hs, is] \<and> int_of_str L ws = Some w \<and>
       int_of_str L hs = Some h \<and> float_of_str L is = Some i \<and> (w \<le> 0 \<or> h \<le> 0)"
    then have "parse_fields L raw = Some (w, h, i)"
      by (simp add: parse_fields_Some_iff)
    with a load_base64_image_cases [of L data raw w h i] surf
    show "run = Inl (ValidationError ''image dimensions must be positive'' (Some ''image_base64''))"
      by blast
  qed
  have c5: "\<forall>raw ws hs is w h i. b64decode L data = Some raw \<and> is_ascii raw \<and>
       split_comma raw = [ws, hs, is] \<and> int_of_str L ws = Some w \<and>
       int_of_str L hs = Some h \<and> float_of_str L is = Some i \<and> 0 < w \<and> 0 < h \<and>
       \<not> intensity_in_range i \<longrightarrow>
       run = Inl (ValidationError ''intensity must be between 0 and 255'' (Some ''image_base64''))"
  proof (intro allI impI)
    fix raw ws hs "is" w h i
    assume a: "b64decode L data = Some raw \<and> is_ascii raw \<and>
       split_comma raw = [ws, hs, is] \<and> int_of_str L ws = Some w \<and>
       int_of_str L hs = Some h \<and> float_of_str L is = Some i \<and> 0 < w \<and> 0 < h \<and>
       \<not> intensity_in_range i"
    then have "parse_fields L raw = Some (w, h, i)"
      by (simp add: parse_fields_Some_iff)
    with a load_base64_image_cases [of L data raw w h i] surf
    show "run = Inl (ValidationError ''intensity must be between 0 and 255'' (Some ''image_base64''))"
      by blast
  qed
  have c6: "\<forall>e. load_base64_image L data = Inl e \<longrightarrow>
       (\<exists>msg. e = ValueError msg \<and> run = Inl (ValidationError msg (Some ''image_base64'')))"
  proof (intro allI impI)
    fix e
    assume a: "load_base64_image L data = Inl e"
    from load_base64_image_Inl [OF a] obtain msg where "e = ValueError msg" by auto
    with a surf show "\<exists>msg. e = ValueError msg \<and> run = Inl (ValidationError msg (Some ''image_base64''))"
      by blast
  qed
  from c1 c2 c3 c4 c5 c6 show ?thesis by blast
qed

lemma ref_payload_validated:
  assumes "img \<noteq> []"
  shows "validate_payload ref_lib (ref_payload img []) ref_config = Inr (ref_request img [])"
  using assms
  by (simp add: ref_payload_def ref_request_def ref_config_def get_default_def
      coerce_confidence_level_def)

lemma image_base64_ref_request: "img = image_base64 (ref_request img hints)"
  by (simp add: ref_request_def)

theorem decode_failure_surfaced_witness:
  "\<forall>probit.
     run_inference ref_lib probit ref_config (ref_payload ''!'' []) None None =
       Inl (ValidationError ''Invalid base64 encoded image'' (Some ''image_base64'')) \<and>
     run_inference ref_lib probit ref_config (ref_payload ''/w=='' []) None None =
       Inl (ValidationError ''Image payload must be ASCII'' (Some ''image_base64'')) \<and>
     run_inference ref_lib probit ref_config (ref_payload ''YQ=='' []) None None =
       Inl (ValidationError ''image payload must be width,height,intensity'' (Some ''image_base64'')) \<and>
     run_inference ref_lib probit ref_config (ref_payload ''YSw1LDEuMA=='' []) None None =
       Inl (ValidationError ''image payload must be width,height,intensity'' (Some ''image_base64'')) \<and>
     run_inference ref_lib probit ref_config (ref_payload ''MCw1LDEuMA=='' []) None None =
       Inl (ValidationError ''image dimensions must be positive'' (Some ''image_base64'')) \<and>
     run_inference ref_lib probit ref_config (ref_payload ''MjU2LDI1NiwzMDAuMA=='' []) None None =
       Inl (ValidationError ''intensity must be between 0 and 255'' (Some ''image_base64''))"
proof (intro allI conjI)
  fix probit :: "real \<Rightarrow> real"
  have a: "b64decode ref_lib ''!'' = None"
    by code_simp
  have "''!'' \<noteq> []" by simp
  note c = decode_failure_surfaced [OF ref_payload_validated [OF this] image_base64_ref_request refl]
  from c [THEN conjunct1, THEN mp, OF a]
  show "run_inference ref_lib probit ref_config (ref_payload ''!'' []) None None =
       Inl (ValidationError ''Invalid base64 encoded image'' (Some ''image_base64''))" .
next
  fix probit :: "real \<Rightarrow> real"
  have a: "b64decode ref_lib ''/w=='' = Some [CHR 0xFF] \<and> \<not> is_ascii [CHR 0xFF]"
    by code_simp
  have "''/w=='' \<noteq> []" by simp
  note c = decode_failure_surfaced [OF ref_payload_validated [OF this] image_base64_ref_request refl]
  from c [THEN conjunct2, THEN conjunct1, THEN spec, THEN mp, OF a]
  show "run_inference ref_lib probit ref_config (ref_payload ''/w=='' []) None None =
       Inl (ValidationError ''Image payload must be ASCII'' (Some ''image_base64''))" .
next
  fix probit :: "real \<Rightarrow> real"
  have a: "b64decode ref_lib ''YQ=='' = Some ''a'' \<and> is_ascii ''a'' \<and>
       (length (split_comma ''a'') \<noteq> 3 \<or>
        (\<exists>ws hs is. split_comma ''a'' = [ws, hs, is] \<and>
           (int_of_str ref_lib ws = None \<or> int_of_str ref_lib hs = None \<or>
            float_of_str ref_lib is = None)))"
  proof -
    have "b64decode ref_lib ''YQ=='' = Some ''a'' \<and> is_ascii ''a'' \<and> length (split_comma ''a'') \<noteq> 3"
      by code_simp
    then show ?thesis by simp
  qed
  have "''YQ=='' \<noteq> []" by simp
  note c = decode_failure_surfaced [OF ref_payload_validated [OF this] image_base64_ref_request refl]
  from c [THEN conjunct2, THEN conjunct2, THEN conjunct1, THEN spec, THEN mp, OF a]
  show "run_inference ref_lib probit ref_config (ref_payload ''YQ=='' []) None None =
       Inl (ValidationError ''image payload must be width,height,intensity'' (Some ''image_base64''))" .
next
  fix probit :: "real \<Rightarrow> real"
  have a: "b64decode ref_lib ''YSw1LDEuMA=='' = Some ''a,5,1.0'' \<and> is_ascii ''a,5,1.0'' \<and>
       (length (split_comma ''a,5,1.0'') \<noteq> 3 \<or>
        (\<exists>ws hs is. split_comma ''a,5,1.0'' = [ws, hs, is] \<and>
           (int_of_str ref_lib ws = None \<or> int_of_str ref_lib hs = None \<or>
            float_of_str ref_lib is = None)))"
  proof -
    have "b64decode ref_lib ''YSw1LDEuMA=='' = Some ''a,5,1.0'' \<and> is_ascii ''a,5,1.0'' \<and>
        split_comma ''a,5,1.0'' = [''a'', ''5'', ''1.0''] \<and> int_of_str ref_lib ''a'' = None"
      by code_simp
    then show ?thesis by simp
  qed
  have "''YSw1LDEuMA=='' \<noteq> []" by simp
  note c = decode_failure_surfaced [OF ref_payload_validated [OF this] image_base64_ref_request refl]
  from c [THEN conjunct2, THEN conjunct2, THEN conjunct1, THEN spec, THEN mp, OF a]
  show "run_inference ref_lib probit ref_config (ref_payload ''YSw1LDEuMA=='' []) None None =
       Inl (ValidationError ''image payload must be width,height,intensity'' (Some ''image_base64''))" .
next
  fix probit :: "real \<Rightarrow> real"
  have a: "b64decode ref_lib ''MCw1LDEuMA=='' = Some ''0,5,1.0'' \<and> is_ascii ''0,5,1.0'' \<and>
        split_comma ''0,5,1.0'' = [''0'', ''5'', ''1.0''] \<and> int_of_str ref_lib ''0'' = Some 0 \<and>
        int_of_str ref_lib ''5'' = Some 5 \<and> float_of_str ref_lib ''1.0'' = Some (Finite 1) \<and>
        ((0::int) \<le> 0 \<or> (5::int) \<le> 0)"
    by code_simp
  have "''MCw1LDEuMA=='' \<noteq> []" by simp
  note c = decode_failure_surfaced [OF ref_payload_validated [OF this] image_base64_ref_request refl]
  from c [THEN conjunct2, THEN conjunct2, THEN conjunct2, THEN conjunct1,
      THEN spec, THEN spec, THEN spec, THEN spec, THEN spec, THEN spec, THEN spec, THEN mp, OF a]
  show "run_inference ref_lib probit ref_config (ref_payload ''MCw1LDEuMA=='' []) None None =
       Inl (ValidationError ''image dimensions must be positive'' (Some ''image_base64''))" .
next
  fix probit :: "real \<Rightarrow> real"
  have a: "b64decode ref_lib ''MjU2LDI1NiwzMDAuMA=='' = Some ''256,256,300.0'' \<and>
        is_ascii ''256,256,300.0'' \<and>
        split_comma ''256,256,300.0'' = [''256'', ''256'', ''300.0''] \<and>
        int_of_str ref_lib ''256'' = Some 256 \<and> int_of_str ref_lib ''256'' = Some 256 \<and>
        float_of_str ref_lib ''300.0'' = Some (Finite 300) \<and> (0::int) < 256 \<and> (0::int) < 256 \<and>
        \<not> intensity_in_range (Finite 300)"
    by code_simp
  have "''MjU2LDI1NiwzMDAuMA=='' \<noteq> []" by simp
  note c = decode_failure_surfaced [OF ref_payload_validated [OF this] image_base64_ref_request refl]
  from c [THEN conjunct2, THEN conjunct2, THEN conjunct2, THEN conjunct2, THEN conjunct1,
      THEN spec, THEN spec, THEN spec, THEN spec, THEN spec, THEN spec, THEN spec, THEN mp, OF a]
  show "run_inference ref_lib probit ref_config (ref_payload ''MjU2LDI1NiwzMDAuMA=='' []) None None =
       Inl (ValidationError ''intensity must be between 0 and 255'' (Some ''image_base64''))" .
qed

section \<open>The confidence interval\<close>

text \<open>The clamped level, and the degenerate interval at level zero.\<close>

lemma confidence_interval_degenerate:
  "level \<le> 0 \<Longrightarrow> confidence_interval probit p level = Inr (pred_value p, pred_value p)"
  by (simp add: confidence_interval_def Let_def)

text \<open>
  For a level in the open unit interval and a positive uncertainty, both calls of
  \<open>inv_cdf\<close> are inside the domain of the library, and the interval is returned.
\<close>

lemma confidence_interval_returns:
  assumes "0 < level" and "level < 1" and "0 < uncertainty p"
  shows "confidence_interval probit p level =
     Inr (pred_value p + probit ((1 - min level 0.999) / 2) * uncertainty p,
          pred_value p + probit (1 - (1 - min level 0.999) / 2) * uncertainty p)"
proof -
  let ?l = "min level (0.999::real)"
  have m: "max ?l 0 = ?l" and pos: "\<not> ?l \<le> 0"
    using assms by (simp_all add: max_def min_def)
  have t: "\<not> ((1 - ?l) / 2 \<le> 0 \<or> 1 \<le> (1 - ?l) / 2)"
      "\<not> (1 - (1 - ?l) / 2 \<le> 0 \<or> 1 \<le> 1 - (1 - ?l) / 2)"
    using assms by (auto simp add: min_def)
  have s: "\<not> uncertainty p < 0" "\<not> uncertainty p \<le> 0"
    using assms by simp_all
  show ?thesis
    unfolding confidence_interval_def Let_def NormalDist_def inv_cdf_def
    by (simp only: m pos t s if_False sum.case prod.case)
qed

lemma confidence_interval_Inl:
  "confidence_interval probit p level = Inl e \<Longrightarrow> e = StatisticsError"
  by (auto simp add: confidence_interval_def NormalDist_def inv_cdf_def Let_def
      split: if_splits sum.splits prod.splits)

section \<open>The orchestrator\<close>

lemma after_detection_none:
  "after_detection probit config request loaded d model [] =
     Inl (InferenceError ''no faces detected'' ''no_faces'')"
  by (simp add: after_detection_def)

lemma after_detection_many:
  "2 \<le> length ds \<Longrightarrow>
   after_detection probit config request loaded d model ds =
     Inl (InferenceError ''multiple faces detected'' ''multiple_faces'')"
  by (cases ds) (auto simp add: after_detection_def Suc_le_eq)

lemma after_detection_occluded:
  "occluded det \<Longrightarrow>
   after_detection probit config request loaded d model [det] =
     Inl (InferenceError ''primary face appears occluded'' ''occluded'')"
  by (simp add: after_detection_def)

lemma after_detection_single:
  assumes "\<not> occluded det"
  shows "after_detection probit config request loaded d model [det] =
     (case confidence_interval probit
             (resolve_model config model (normalise_image (crop_to_face (image_of loaded) det)))
             (confidence_level request) of
        Inl e \<Rightarrow> Inl e
      | Inr (lower, upper) \<Rightarrow>
          Inr \<lparr>status = ''success'',
               age_value = pred_value
                 (resolve_model config model (normalise_image (crop_to_face (image_of loaded) det))),
               ci_level = confidence_level request,
               ci_lower = lower,
               ci_upper = upper,
               meta_detector = det_name d,
               meta_model_name = name (model_metadata config),
               meta_model_version = version (model_metadata config),
               meta_mean_absolute_error = mean_absolute_error (model_metadata config),
               meta_calibration_date = calibration_date (model_metadata config),
               meta_fairness_warnings = fairness_warnings (model_metadata config),
               meta_limitations = limitations (model_metadata config),
               face_bbox =
                 (if return_face_bbox request then Some (as_tuple (bounding_box det)) else None)\<rparr>)"
  using assms by (simp add: after_detection_def Let_def)

lemma after_detection_single_not_inference_error:
  assumes "\<not> occluded det"
  shows "after_detection probit config request loaded d model [det] \<noteq> Inl (InferenceError msg reason)"
proof
  assume a: "after_detection probit config request loaded d model [det] = Inl (InferenceError msg reason)"
  show False
  proof (cases "confidence_interval probit
             (resolve_model config model (normalise_image (crop_to_face (image_of loaded) det)))
             (confidence_level request)")
    case (Inl e)
    with a assms have "e = InferenceError msg reason"
      by (simp add: after_detection_single)
    with confidence_interval_Inl [OF Inl] show False by simp
  next
    case (Inr b)
    with a assms show False
      by (cases b) (simp add: after_detection_single)
  qed
qed

text \<open>The stages of \<open>run_inference\<close>, one case for each way the call can go.\<close>

lemma run_inference_cases:
  fixes L probit config payload detector model
  defines "run \<equiv> run_inference L probit config payload detector model"
  obtains
    (invalid) e where
      "validate_payload L payload config = Inl e" "run = Inl e"
  | (undecodable) request msg where
      "validate_payload L payload config = Inr request"
      "load_base64_image L (image_base64 request) = Inl (ValueError msg)"
      "run = Inl (ValidationError msg (Some ''image_base64''))"
  | (too_small) request loaded e where
      "validate_payload L payload config = Inr request"
      "load_base64_image L (image_base64 request) = Inr loaded"
      "validate_image_size (image_of loaded) config = Inl e" "run = Inl e"
  | (detector_raises) request loaded e where
      "validate_payload L payload config = Inr request"
      "load_base64_image L (image_base64 request) = Inr loaded"
      "validate_image_size (image_of loaded) config = Inr ()"
      "det_detect_faces (resolve_detector config detector) (image_of loaded)
         (detector_hints request) = Inl e"
      "run = Inl e"
  | (detected) request loaded detections where
      "validate_payload L payload config = Inr request"
      "load_base64_image L (image_base64 request) = Inr loaded"
      "validate_image_size (image_of loaded) config = Inr ()"
      "det_detect_faces (resolve_detector config detector) (image_of loaded)
         (detector_hints request) = Inr detections"
      "run = after_detection probit config request loaded (resolve_detector config detector)
               model detections"
proof (cases "validate_payload L payload config")
  case (Inl e)
  then show ?thesis
    using invalid by (simp add: run_def run_inference_def)
next
  case (Inr request)
  note v = this
  show ?thesis
  proof (cases "load_base64_image L (image_base64 request)")
    case (Inl e)
    from load_base64_image_Inl [OF this] obtain msg where "e = ValueError msg" by auto
    with Inl v show ?thesis
      using undecodable by (simp add: run_def run_inference_def)
  next
    case (Inr loaded)
    note l = this
    show ?thesis
    proof (cases "validate_image_size (image_of loaded) config")
      case (Inl e)
      with v l show ?thesis
        using too_small by (simp add: run_def run_inference_def)
    next
      case (Inr u)
      note s = this
      show ?thesis
      proof (cases "det_detect_faces (resolve_detector config detector) (image_of loaded)
          (detector_hints request)")
        case (Inl e)
        with v l s show ?thesis
          using detector_raises by (simp add: run_def run_inference_def)
      next
        case (Inr detections)
        with v l s show ?thesis
          using detected by (simp add: run_def run_inference_def)
      qed
    qed
  qed
qed

lemma validate_image_size_Inl:
  "validate_image_size img config = Inl e \<Longrightarrow> \<exists>msg. e = ValidationError msg (Some ''image_base64'')"
  by (auto simp add: validate_image_size_def size_of_def split: if_splits)

lemma validate_image_size_Inr_iff:
  "validate_image_size img config = Inr () \<longleftrightarrow> \<not> min (width img) (height img) < min_image_edge config"
  by (simp add: validate_image_size_def size_of_def)

subsection \<open>Face count and occlusion\<close>

text \<open>
  C2. In \<open>run_inference\<close>, after detection: an empty detection list always raises
  \<open>InferenceError\<close> with reason \<open>no_faces\<close>; a list of two or more detections always
  raises \<open>InferenceError\<close> with reason \<open>multiple_faces\<close>, whatever the occlusion flags (the
  count is checked before the occlusion); exactly one detection flagged occluded always
  raises \<open>InferenceError\<close> with reason \<open>occluded\<close>. Each of the three reasons arises from
  its own condition only, so the three outcomes are mutually exclusive.
\<close>

theorem face_count_and_occlusion_checks:
  assumes "validate_payload L payload config = Inr request"
    and "load_base64_image L (image_base64 request) = Inr loaded"
    and "validate_image_size (image_of loaded) config = Inr ()"
    and "det_detect_faces (resolve_detector config detector) (image_of loaded)
           (detector_hints request) = Inr detections"
    and "run = run_inference L probit config payload detector model"
  shows
   "(detections = [] \<longrightarrow> run = Inl (InferenceError ''no faces detected'' ''no_faces'')) \<and>
    (2 \<le> length detections \<longrightarrow>
       run = Inl (InferenceError ''multiple faces detected'' ''multiple_faces'')) \<and>
    ((\<exists>det. detections = [det] \<and> occluded det) \<longrightarrow>
       run = Inl (InferenceError ''primary face appears occluded'' ''occluded'')) \<and>
    (\<forall>msg. run = Inl (InferenceError msg ''no_faces'') \<longrightarrow> detections = []) \<and>
    (\<forall>msg. run = Inl (InferenceError msg ''multiple_faces'') \<longrightarrow> 2 \<le> length detections) \<and>
    (\<forall>msg. run = Inl (InferenceError msg ''occluded'') \<longrightarrow>
       (\<exists>det. detections = [det] \<and> occluded det))"
proof -
  have run: "run = after_detection probit config request loaded
      (resolve_detector config detector) model detections"
    using assms by (simp add: run_inference_def)
  consider (none) "detections = []"
    | (occ) det where "detections = [det]" "occluded det"
    | (one) det where "detections = [det]" "\<not> occluded det"
    | (many) "2 \<le> length detections"
  proof (cases detections)
    case Nil
    then show ?thesis using none by simp
  next
    case (Cons det rest)
    then show ?thesis
      using occ one many by (cases rest; cases "occluded det") simp_all
  qed
  then show ?thesis
  proof cases
    case none
    then show ?thesis
      using run by (simp add: after_detection_none)
  next
    case occ
    then show ?thesis
      using run by (simp add: after_detection_occluded)
  next
    case one
    then show ?thesis
      using run after_detection_single_not_inference_error [OF one(2)] by simp
  next
    case many
    then have "detections \<noteq> []" "\<nexists>det. detections = [det]"
      by auto
    with many show ?thesis
      using run by (simp add: after_detection_many)
  qed
qed


lemma ref_image_loaded:
  "load_base64_image ref_lib ''MjU2LDI1NiwxODAuMA=='' =
     Inr \<lparr>image_of = \<lparr>width = 256, height = 256, intensity = 180\<rparr>,
          raw_bytes = ''256,256,180.0''\<rparr>"
  by code_simp

lemma ref_image_size_ok:
  "validate_image_size \<lparr>width = 256, height = 256, intensity = 180\<rparr> ref_config = Inr ()"
  by (simp add: validate_image_size_def size_of_def ref_config_def)

lemma DetectorStub_returns:
  "det_detect_faces (resolve_detector config (Some (DetectorStub ds))) img hints = Inr ds"
  by (simp add: resolve_detector_def DetectorStub_def)

theorem face_count_and_occlusion_checks_witness:
  "\<forall>probit model.
     run_inference ref_lib probit ref_config (ref_payload ''MjU2LDI1NiwxODAuMA=='' [])
       (Some (DetectorStub [])) model =
       Inl (InferenceError ''no faces detected'' ''no_faces'') \<and>
     run_inference ref_lib probit ref_config (ref_payload ''MjU2LDI1NiwxODAuMA=='' [])
       (Some (DetectorStub
          [\<lparr>bounding_box = \<lparr>box_x = 10, box_y = 10, box_width = 90, box_height = 90\<rparr>,
            confidence = 0.9, occluded = True\<rparr>,
           \<lparr>bounding_box = \<lparr>box_x = 10, box_y = 10, box_width = 90, box_height = 90\<rparr>,
            confidence = 0.8, occluded = False\<rparr>])) model =
       Inl (InferenceError ''multiple faces detected'' ''multiple_faces'') \<and>
     run_inference ref_lib probit ref_config (ref_payload ''MjU2LDI1NiwxODAuMA=='' [])
       (Some (DetectorStub
          [\<lparr>bounding_box = \<lparr>box_x = 5, box_y = 5, box_width = 100, box_height = 100\<rparr>,
            confidence = 0.9, occluded = True\<rparr>])) model =
       Inl (InferenceError ''primary face appears occluded'' ''occluded'')"
proof (intro allI conjI)
  fix probit :: "real \<Rightarrow> real" and model :: "age_model option"
  have img: "''MjU2LDI1NiwxODAuMA=='' \<noteq> []" by simp
  have l: "load_base64_image ref_lib
      (image_base64 (ref_request ''MjU2LDI1NiwxODAuMA=='' [])) =
     Inr \<lparr>image_of = \<lparr>width = 256, height = 256, intensity = 180\<rparr>,
          raw_bytes = ''256,256,180.0''\<rparr>"
    using ref_image_loaded by (simp add: ref_request_def)
  have s: "validate_image_size
      (image_of \<lparr>image_of = \<lparr>width = 256, height = 256, intensity = 180\<rparr>,
          raw_bytes = ''256,256,180.0''\<rparr>) ref_config = Inr ()"
    using ref_image_size_ok by simp
  note checks = face_count_and_occlusion_checks
    [OF ref_payload_validated [OF img] l s DetectorStub_returns refl]
  from checks [THEN conjunct1, THEN mp, OF refl]
  show "run_inference ref_lib probit ref_config (ref_payload ''MjU2LDI1NiwxODAuMA=='' [])
       (Some (DetectorStub [])) model =
       Inl (InferenceError ''no faces detected'' ''no_faces'')" .
  have two: "2 \<le> length
          [\<lparr>bounding_box = \<lparr>box_x = 10, box_y = 10, box_width = 90, box_height = 90\<rparr>,
            confidence = 0.9, occluded = True\<rparr>,
           \<lparr>bounding_box = \<lparr>box_x = 10, box_y = 10, box_width = 90, box_height = 90\<rparr>,
            confidence = 0.8, occluded = False\<rparr>]"
    by simp
  from checks [THEN conjunct2, THEN conjunct1, THEN mp, OF two]
  show "run_inference ref_lib probit ref_config (ref_payload ''MjU2LDI1NiwxODAuMA=='' [])
       (Some (DetectorStub
          [\<lparr>bounding_box = \<lparr>box_x = 10, box_y = 10, box_width = 90, box_height = 90\<rparr>,
            confidence = 0.9, occluded = True\<rparr>,
           \<lparr>bounding_box = \<lparr>box_x = 10, box_y = 10, box_width = 90, box_height = 90\<rparr>,
            confidence = 0.8, occluded = False\<rparr>])) model =
       Inl (InferenceError ''multiple faces detected'' ''multiple_faces'')" .
  have occ: "\<exists>det. [\<lparr>bounding_box = \<lparr>box_x = 5, box_y = 5, box_width = 100, box_height = 100\<rparr>,
            confidence = 0.9, occluded = True\<rparr>] = [det] \<and> occluded det"
    by simp
  from checks [THEN conjunct2, THEN conjunct2, THEN conjunct1, THEN mp, OF occ]
  show "run_inference ref_lib probit ref_config (ref_payload ''MjU2LDI1NiwxODAuMA=='' [])
       (Some (DetectorStub
          [\<lparr>bounding_box = \<lparr>box_x = 5, box_y = 5, box_width = 100, box_height = 100\<rparr>,
            confidence = 0.9, occluded = True\<rparr>])) model =
       Inl (InferenceError ''primary face appears occluded'' ''occluded'')" .
qed

subsection \<open>The default detector in the orchestrator\<close>

text \<open>
  C9 as stated fails in its first part: with no hints and an image whose height does
  not fit a float, \<open>detect_faces\<close> raises \<open>OverflowError\<close> and returns no list.
\<close>

theorem detect_faces_no_list_counterexample:
  "detect_faces \<lparr>width = 256, height = 2 ^ 1024, intensity = 0\<rparr> [] =
     Inl (Propagated Overflow_Error)"
  by (simp add: detect_faces_def default_box_def size_of_def int_scaled_def
      py_float_of_int_def int_fits_float_def)

text \<open>
  C9, amended. For every image and every hints list, whenever
  \<open>SimpleFaceDetector.detect_faces\<close> returns, it returns a non-empty list in which every
  detection has \<open>occluded = False\<close>; it returns whenever the hints list is non-empty or
  the width and height of the image fit a float. Consequently, whenever \<open>run_inference\<close>
  resolves the default detector, the \<open>InferenceError\<close> branches with reason \<open>no_faces\<close>
  and reason \<open>occluded\<close> are unreachable: an \<open>InferenceError\<close> has reason
  \<open>multiple_faces\<close> and comes from a request with two or more hints.
\<close>

theorem default_detector_inference_errors:
  "(detect_faces img hints = Inr ds \<longrightarrow> ds \<noteq> [] \<and> (\<forall>d \<in> set ds. \<not> occluded d)) \<and>
   (hints \<noteq> [] \<or> (int_fits_float (width img) \<and> int_fits_float (height img)) \<longrightarrow>
      (\<exists>ds. detect_faces img hints = Inr ds)) \<and>
   (run_inference L probit config payload None model = Inl (InferenceError msg reason) \<longrightarrow>
      reason = ''multiple_faces'' \<and>
      (\<exists>request. validate_payload L payload config = Inr request \<and>
         2 \<le> length (detector_hints request)))"
proof (intro conjI impI)
  assume "detect_faces img hints = Inr ds"
  from detect_faces_returns [OF this]
  show "ds \<noteq> []" and "\<forall>d \<in> set ds. \<not> occluded d" by simp_all
next
  assume "hints \<noteq> [] \<or> (int_fits_float (width img) \<and> int_fits_float (height img))"
  then show "\<exists>ds. detect_faces img hints = Inr ds"
    by (cases "hints = []") (auto simp add: detect_faces_def default_box_fits)
next
  assume err: "run_inference L probit config payload None model = Inl (InferenceError msg reason)"
  have both: "reason = ''multiple_faces'' \<and>
      (\<exists>request. validate_payload L payload config = Inr request \<and>
         2 \<le> length (detector_hints request))"
  proof (cases rule: run_inference_cases [where L = L and probit = probit and config = config
      and payload = payload and detector = None and model = model])
    case (invalid e)
    with err validate_payload_Inl [OF invalid(1)] show ?thesis by auto
  next
    case (undecodable request m)
    with err show ?thesis by simp
  next
    case (too_small request loaded e)
    with err validate_image_size_Inl [OF too_small(3)] show ?thesis by auto
  next
    case (detector_raises request loaded e)
    then have "detect_faces (image_of loaded) (detector_hints request) = Inl e"
      by (simp add: resolve_detector_def SimpleFaceDetector_def)
    then have "e = Propagated Overflow_Error \<or> (\<exists>ex. e = Propagated ex)"
      by (auto simp add: detect_faces_def split: if_splits builtin.splits)
    with err detector_raises show ?thesis by auto
  next
    case (detected request loaded detections)
    then have d: "detect_faces (image_of loaded) (detector_hints request) = Inr detections"
      by (simp add: resolve_detector_def SimpleFaceDetector_def)
    note r = detect_faces_returns [OF d]
    show ?thesis
    proof (cases "2 \<le> length detections")
      case True
      with err detected(5) have "reason = ''multiple_faces''"
        by (simp add: after_detection_many)
      moreover have "2 \<le> length (detector_hints request)"
      proof (cases "detector_hints request = []")
        case True
        with d have "length detections = 1"
          by (auto simp add: detect_faces_def split: builtin.splits)
        with \<open>2 \<le> length detections\<close> show ?thesis by simp
      next
        case False
        with r have "detections = map from_hint (detector_hints request)" by simp
        with \<open>2 \<le> length detections\<close> show ?thesis by simp
      qed
      ultimately show ?thesis using detected(1) by blast
    next
      case False
      with r have "length detections = Suc 0"
        by (cases detections) (auto simp add: Suc_le_eq)
      then obtain det where d1: "detections = [det]"
        by (auto simp add: length_Suc_conv)
      with r have d2: "\<not> occluded det" by simp
      note det = d1 d2
      with err detected(5) after_detection_single_not_inference_error [OF det(2)]
      show ?thesis by simp
    qed
  qed
  from both show "reason = ''multiple_faces''" by simp
  from both show "\<exists>request. validate_payload L payload config = Inr request \<and>
         2 \<le> length (detector_hints request)" by simp
qed

lemma two_hints_validated:
  "validate_payload ref_lib
     (ref_payload ''MjU2LDI1NiwxODAuMA==''
        [(''detector_hints'',
          PList [PDict [(''x'', PInt 10), (''y'', PInt 10), (''width'', PInt 90), (''height'', PInt 90)],
                 PDict [(''x'', PInt 120), (''y'', PInt 10), (''width'', PInt 90), (''height'', PInt 90)]])])
     ref_config =
   Inr (ref_request ''MjU2LDI1NiwxODAuMA==''
          [\<lparr>box_x = 10, box_y = 10, box_width = 90, box_height = 90\<rparr>,
           \<lparr>box_x = 120, box_y = 10, box_width = 90, box_height = 90\<rparr>])"
  by code_simp

theorem default_detector_inference_errors_witness:
  "\<forall>probit model.
     detect_faces \<lparr>width = 256, height = 256, intensity = 180\<rparr> [] =
       Inr [\<lparr>bounding_box = \<lparr>box_x = 25, box_y = 25, box_width = 204, box_height = 204\<rparr>,
             confidence = 0.5, occluded = False\<rparr>] \<and>
     int_fits_float 256 \<and>
     run_inference ref_lib probit ref_config
       (ref_payload ''MjU2LDI1NiwxODAuMA==''
          [(''detector_hints'',
            PList [PDict [(''x'', PInt 10), (''y'', PInt 10), (''width'', PInt 90), (''height'', PInt 90)],
                   PDict [(''x'', PInt 120), (''y'', PInt 10), (''width'', PInt 90), (''height'', PInt 90)]])])
       None model =
       Inl (InferenceError ''multiple faces detected'' ''multiple_faces'') \<and>
     (\<exists>request. validate_payload ref_lib
          (ref_payload ''MjU2LDI1NiwxODAuMA==''
            [(''detector_hints'',
              PList [PDict [(''x'', PInt 10), (''y'', PInt 10), (''width'', PInt 90), (''height'', PInt 90)],
                     PDict [(''x'', PInt 120), (''y'', PInt 10), (''width'', PInt 90), (''height'', PInt 90)]])])
          ref_config = Inr request \<and>
        2 \<le> length (detector_hints request))"
proof (intro allI)
  fix probit :: "real \<Rightarrow> real" and model :: "age_model option"
  let ?img = "\<lparr>width = 256, height = 256, intensity = 180\<rparr>"
  let ?payload = "ref_payload ''MjU2LDI1NiwxODAuMA==''
          [(''detector_hints'',
            PList [PDict [(''x'', PInt 10), (''y'', PInt 10), (''width'', PInt 90), (''height'', PInt 90)],
                   PDict [(''x'', PInt 120), (''y'', PInt 10), (''width'', PInt 90), (''height'', PInt 90)]])]"
  have fits: "int_fits_float 256"
    by (simp add: int_fits_float_def)
  note facts = default_detector_inference_errors
    [where img = ?img and hints = "[]" and L = ref_lib and probit = probit and config = ref_config
       and payload = ?payload and model = model and msg = "''multiple faces detected''"
       and reason = "''multiple_faces''"]
  from facts [THEN conjunct2, THEN conjunct1] fits
  obtain ds where ds: "detect_faces ?img [] = Inr ds"
    by auto
  have box: "detect_faces ?img [] =
       Inr [\<lparr>bounding_box = \<lparr>box_x = 25, box_y = 25, box_width = 204, box_height = 204\<rparr>,
             confidence = 0.5, occluded = False\<rparr>]"
    using fits by (simp add: detect_faces_def default_box_fits scaled_256)
  have run: "run_inference ref_lib probit ref_config ?payload None model =
       Inl (InferenceError ''multiple faces detected'' ''multiple_faces'')"
    using two_hints_validated ref_image_loaded ref_image_size_ok
    by (simp add: run_inference_def ref_request_def resolve_detector_def SimpleFaceDetector_def
        detect_faces_def after_detection_many)
  from facts [THEN conjunct2, THEN conjunct2, THEN mp, OF run]
  have "\<exists>request. validate_payload ref_lib ?payload ref_config = Inr request \<and>
        2 \<le> length (detector_hints request)"
    by simp
  with box fits run show "detect_faces ?img [] =
       Inr [\<lparr>bounding_box = \<lparr>box_x = 25, box_y = 25, box_width = 204, box_height = 204\<rparr>,
             confidence = 0.5, occluded = False\<rparr>] \<and>
     int_fits_float 256 \<and>
     run_inference ref_lib probit ref_config ?payload None model =
       Inl (InferenceError ''multiple faces detected'' ''multiple_faces'') \<and>
     (\<exists>request. validate_payload ref_lib ?payload ref_config = Inr request \<and>
        2 \<le> length (detector_hints request))"
    by simp
qed

section \<open>A single hinted face\<close>

lemma intensity_normalise_crop:
  "intensity (normalise_image (crop_to_face img det)) = intensity img"
  by (simp add: normalise_image_def resize_def crop_to_face_def crop_box_def as_tuple_def Let_def)

lemma CalibratedLinearModel_normalise_crop:
  "pred_value (CalibratedLinearModel slope intercept residual_std
       (normalise_image (crop_to_face img det))) =
     slope * (intensity img / 255) + intercept"
  by (simp add: CalibratedLinearModel_def mean_intensity_def intensity_normalise_crop)

lemma resolve_detector_None: "resolve_detector config None = SimpleFaceDetector"
  by (simp add: resolve_detector_def)

text \<open>
  C1, amended. For every valid request (one that passes validation, decodes, and meets
  the minimum edge) containing exactly one detector hint, any integer box, whose
  resulting detection is not occluded (with the default detector the detection of a hint
  never is; with an injected detector this is assumed of the single detection it
  returns), and for a model whose prediction reports a positive uncertainty (the model
  the service builds when none is injected always does), \<open>run_inference\<close> returns a
  response with status \<open>success\<close> and \<open>age.value\<close> equal to the prediction of the model
  on the cropped-then-normalised image; for the reference model this is
  \<open>slope * (intensity / 255) + intercept\<close>, the intensity being that of the decoded image,
  and \<open>60 * (intensity / 255) + 5\<close> for the model the service builds when none is
  injected.
\<close>

theorem single_hint_inference_succeeds:
  assumes "validate_payload L payload config = Inr request"
    and "detector_hints request = [hint]"
    and "load_base64_image L (image_base64 request) = Inr loaded"
    and "\<not> min (width (image_of loaded)) (height (image_of loaded)) < min_image_edge config"
    and "(detector = None \<and> det = from_hint hint) \<or>
         (det_detect_faces (resolve_detector config detector) (image_of loaded) [hint] = Inr [det] \<and>
          \<not> occluded det)"
    and "prediction =
           resolve_model config model (normalise_image (crop_to_face (image_of loaded) det))"
    and "model = None \<or> 0 < uncertainty prediction"
  shows "\<exists>resp. run_inference L probit config payload detector model = Inr resp \<and>
           status resp = ''success'' \<and>
           age_value resp = pred_value prediction \<and>
           (\<forall>slope intercept residual_std.
              resolve_model config model = CalibratedLinearModel slope intercept residual_std \<longrightarrow>
              age_value resp = slope * (intensity (image_of loaded) / 255) + intercept) \<and>
           (model = None \<longrightarrow> age_value resp = 60 * (intensity (image_of loaded) / 255) + 5)"
proof -
  have size: "validate_image_size (image_of loaded) config = Inr ()"
    using assms(4) by (simp add: validate_image_size_Inr_iff)
  have "det_detect_faces (resolve_detector config detector) (image_of loaded)
      (detector_hints request) = Inr [det] \<and> \<not> occluded det"
    using assms(5)
  proof
    assume "detector = None \<and> det = from_hint hint"
    then show ?thesis
      using assms(2)
      by (simp add: resolve_detector_None SimpleFaceDetector_def detect_faces_hints from_hint_def)
  next
    assume "det_detect_faces (resolve_detector config detector) (image_of loaded) [hint] = Inr [det] \<and>
          \<not> occluded det"
    then show ?thesis
      using assms(2) by simp
  qed
  then have det: "det_detect_faces (resolve_detector config detector) (image_of loaded)
      (detector_hints request) = Inr [det]" and occ: "\<not> occluded det"
    by simp_all
  have level: "0 < confidence_level request" "confidence_level request < 1"
    using validate_payload_level [OF assms(1)] by simp_all
  have unc: "0 < uncertainty prediction"
    using assms(6,7) by (auto simp add: resolve_model_def CalibratedLinearModel_def)
  have run: "run_inference L probit config payload detector model =
      after_detection probit config request loaded (resolve_detector config detector) model [det]"
    using assms(1,3) size det by (simp add: run_inference_def)
  obtain lower upper where ci:
    "confidence_interval probit prediction (confidence_level request) = Inr (lower, upper)"
    using confidence_interval_returns [OF level unc] by blast
  define resp where "resp =
     \<lparr>status = ''success'', age_value = pred_value prediction,
      ci_level = confidence_level request, ci_lower = lower, ci_upper = upper,
      meta_detector = det_name (resolve_detector config detector),
      meta_model_name = name (model_metadata config),
      meta_model_version = version (model_metadata config),
      meta_mean_absolute_error = mean_absolute_error (model_metadata config),
      meta_calibration_date = calibration_date (model_metadata config),
      meta_fairness_warnings = fairness_warnings (model_metadata config),
      meta_limitations = limitations (model_metadata config),
      face_bbox = (if return_face_bbox request then Some (as_tuple (bounding_box det)) else None)\<rparr>"
  have r: "run_inference L probit config payload detector model = Inr resp"
    using run ci assms(6) by (simp add: after_detection_single [OF occ] resp_def)
  have s: "status resp = ''success''" and v: "age_value resp = pred_value prediction"
    by (simp_all add: resp_def)
  have lin: "age_value resp = slope * (intensity (image_of loaded) / 255) + intercept"
    if "resolve_model config model = CalibratedLinearModel slope intercept residual_std"
    for slope intercept residual_std
    using that v assms(6) by (simp add: CalibratedLinearModel_normalise_crop)
  have dflt: "age_value resp = 60 * (intensity (image_of loaded) / 255) + 5" if "model = None"
    using that lin [of 60 5 "7.5"] by (simp add: resolve_model_def)
  from r s v lin dflt show ?thesis by blast
qed

lemma one_hint_validated:
  "validate_payload ref_lib
     (ref_payload ''MjU2LDI1NiwxODAuMA==''
        [(''detector_hints'',
          PList [PDict [(''x'', PInt 200), (''y'', PInt (- 5)), (''width'', PInt 100),
                        (''height'', PInt 120)]])])
     ref_config =
   Inr (ref_request ''MjU2LDI1NiwxODAuMA==''
          [\<lparr>box_x = 200, box_y = - 5, box_width = 100, box_height = 120\<rparr>])"
  by code_simp

theorem single_hint_inference_succeeds_witness:
  "\<forall>probit.
     (\<exists>resp. run_inference ref_lib probit ref_config
          (ref_payload ''MjU2LDI1NiwxODAuMA==''
            [(''detector_hints'',
              PList [PDict [(''x'', PInt 200), (''y'', PInt (- 5)), (''width'', PInt 100),
                            (''height'', PInt 120)]])])
          None None = Inr resp \<and>
        status resp = ''success'' \<and> age_value resp = 60 * (180 / 255) + 5) \<and>
     (\<exists>resp. run_inference ref_lib probit ref_config
          (ref_payload ''MjU2LDI1NiwxODAuMA==''
            [(''detector_hints'',
              PList [PDict [(''x'', PInt 200), (''y'', PInt (- 5)), (''width'', PInt 100),
                            (''height'', PInt 120)]])])
          (Some (DetectorStub
             [\<lparr>bounding_box = \<lparr>box_x = 10, box_y = 10, box_width = 100, box_height = 120\<rparr>,
               confidence = 0.95, occluded = False\<rparr>]))
          (Some (ModelStub 32.5 3)) = Inr resp \<and>
        status resp = ''success'' \<and> age_value resp = 32.5)"
proof (intro allI conjI)
  fix probit :: "real \<Rightarrow> real"
  let ?hint = "\<lparr>box_x = 200, box_y = - 5, box_width = 100, box_height = 120\<rparr>"
  let ?loaded = "\<lparr>image_of = \<lparr>width = 256, height = 256, intensity = 180\<rparr>,
          raw_bytes = ''256,256,180.0''\<rparr>"
  let ?payload = "ref_payload ''MjU2LDI1NiwxODAuMA==''
            [(''detector_hints'',
              PList [PDict [(''x'', PInt 200), (''y'', PInt (- 5)), (''width'', PInt 100),
                            (''height'', PInt 120)]])]"
  have h: "detector_hints (ref_request ''MjU2LDI1NiwxODAuMA=='' [?hint]) = [?hint]"
    by (simp add: ref_request_def)
  have l: "load_base64_image ref_lib
      (image_base64 (ref_request ''MjU2LDI1NiwxODAuMA=='' [?hint])) = Inr ?loaded"
    using ref_image_loaded by (simp add: ref_request_def)
  have s: "\<not> min (width (image_of ?loaded)) (height (image_of ?loaded)) < min_image_edge ref_config"
    by (simp add: ref_config_def)
  have d: "(None = None \<and> from_hint ?hint = from_hint ?hint) \<or>
         (det_detect_faces (resolve_detector ref_config None) (image_of ?loaded) [?hint] =
            Inr [from_hint ?hint] \<and> \<not> occluded (from_hint ?hint))"
    by simp
  have u: "(None :: age_model option) = None \<or>
      0 < uncertainty (resolve_model ref_config None
            (normalise_image (crop_to_face (image_of ?loaded) (from_hint ?hint))))"
    by simp
  from single_hint_inference_succeeds [where probit = probit, OF one_hint_validated h l s d refl u]
  obtain resp where
    "run_inference ref_lib probit ref_config ?payload None None = Inr resp"
    "status resp = ''success''"
    "age_value resp = 60 * (intensity (image_of ?loaded) / 255) + 5"
    by auto
  then show "\<exists>resp. run_inference ref_lib probit ref_config ?payload None None = Inr resp \<and>
        status resp = ''success'' \<and> age_value resp = 60 * (180 / 255) + 5"
    by simp
next
  fix probit :: "real \<Rightarrow> real"
  let ?hint = "\<lparr>box_x = 200, box_y = - 5, box_width = 100, box_height = 120\<rparr>"
  let ?det = "\<lparr>bounding_box = \<lparr>box_x = 10, box_y = 10, box_width = 100, box_height = 120\<rparr>,
               confidence = 0.95, occluded = False\<rparr>"
  let ?loaded = "\<lparr>image_of = \<lparr>width = 256, height = 256, intensity = 180\<rparr>,
          raw_bytes = ''256,256,180.0''\<rparr>"
  let ?payload = "ref_payload ''MjU2LDI1NiwxODAuMA==''
            [(''detector_hints'',
              PList [PDict [(''x'', PInt 200), (''y'', PInt (- 5)), (''width'', PInt 100),
                            (''height'', PInt 120)]])]"
  have h: "detector_hints (ref_request ''MjU2LDI1NiwxODAuMA=='' [?hint]) = [?hint]"
    by (simp add: ref_request_def)
  have l: "load_base64_image ref_lib
      (image_base64 (ref_request ''MjU2LDI1NiwxODAuMA=='' [?hint])) = Inr ?loaded"
    using ref_image_loaded by (simp add: ref_request_def)
  have s: "\<not> min (width (image_of ?loaded)) (height (image_of ?loaded)) < min_image_edge ref_config"
    by (simp add: ref_config_def)
  have d: "(Some (DetectorStub [?det]) = None \<and> ?det = from_hint ?hint) \<or>
         (det_detect_faces (resolve_detector ref_config (Some (DetectorStub [?det])))
            (image_of ?loaded) [?hint] = Inr [?det] \<and> \<not> occluded ?det)"
    by (simp add: DetectorStub_returns)
  have u: "Some (ModelStub 32.5 3) = None \<or>
      0 < uncertainty (resolve_model ref_config (Some (ModelStub 32.5 3))
            (normalise_image (crop_to_face (image_of ?loaded) ?det)))"
    by (simp add: resolve_model_def ModelStub_def)
  from single_hint_inference_succeeds [where probit = probit, OF one_hint_validated h l s d refl u]
  obtain resp where
    "run_inference ref_lib probit ref_config ?payload (Some (DetectorStub [?det]))
       (Some (ModelStub 32.5 3)) = Inr resp"
    "status resp = ''success''"
    "age_value resp = pred_value (resolve_model ref_config (Some (ModelStub 32.5 3))
            (normalise_image (crop_to_face (image_of ?loaded) ?det)))"
    by auto
  then show "\<exists>resp. run_inference ref_lib probit ref_config ?payload
          (Some (DetectorStub [?det])) (Some (ModelStub 32.5 3)) = Inr resp \<and>
        status resp = ''success'' \<and> age_value resp = 32.5"
    by (simp add: resolve_model_def ModelStub_def)
qed

section \<open>The interval in exact arithmetic\<close>

text \<open>
  The level is clamped to \<open>[0, 0.999]\<close> before use. In exact arithmetic, and for a quantile
  function that is odd about \<open>1/2\<close> (as the quantile function of the standard normal
  distribution is), the interval is symmetric about the prediction. The service computes
  in IEEE doubles, where \<open>1 - tail\<close>, the two quantiles and the two distances are each
  rounded, so this is a property of the idealised model only.
\<close>

lemma confidence_interval_clamped:
  "confidence_interval probit p level = confidence_interval probit p (max (min level 0.999) 0)"
  by (simp add: confidence_interval_def Let_def)



lemma ref_probit_odd: "ref_probit (1 - p) = - ref_probit p"
  by (simp add: ref_probit_def field_simps)

text \<open>
  C1 as stated fails for an injected model that reports the uncertainty zero: the
  request is valid and has one hint, but \<^verbatim>\<open>NormalDist.inv_cdf\<close> rejects a \<open>sigma\<close> that
  is not positive, and \<open>run_inference\<close> ends with a \<open>StatisticsError\<close>.
\<close>

theorem single_hint_zero_uncertainty_counterexample:
  "run_inference ref_lib ref_probit ref_config
     (ref_payload ''MjU2LDI1NiwxODAuMA==''
        [(''detector_hints'',
          PList [PDict [(''x'', PInt 200), (''y'', PInt (- 5)), (''width'', PInt 100),
                        (''height'', PInt 120)]])])
     None (Some (ModelStub 30 0)) =
   Inl StatisticsError"
proof -
  have "confidence_interval ref_probit \<lparr>pred_value = 30, uncertainty = 0\<rparr> 0.9 = Inl StatisticsError"
    by (simp add: confidence_interval_def NormalDist_def inv_cdf_def Let_def)
  then show ?thesis
    using one_hint_validated ref_image_loaded ref_image_size_ok
    by (simp add: run_inference_def ref_request_def resolve_detector_def SimpleFaceDetector_def
        detect_faces_def after_detection_def from_hint_def resolve_model_def ModelStub_def)
qed



end
